theory Spec2Isabelle
  imports Main "HOL-Library.Multiset"
begin

section \<open>The deck builder component (DeckBuilder, src/unnamed/part\_000)\<close>

text \<open>
  The component keeps one \<open>DeckBuilderState\<close> value in a React state hook, together with
  the hooks \<open>hasBuiltDeck\<close>, \<open>hasShuffledDeck\<close>, \<open>opsError\<close>, \<open>activePlay\<close> and
  \<open>deckSeed\<close>. Every command of the component is embedded as a function from the
  component state before the command to the component state after it. A state updater
  \<open>setBuilderState((prev) => ...)\<close> is a function on \<open>DeckBuilderState\<close>; the closure
  variable \<open>builderState\<close> a command reads is the settled state the command starts from.

  Commands run one at a time, so an updater runs on the state its command started from.
  React does not say when it runs an updater: at the call of \<open>setBuilderState\<close>, or later,
  after the command has returned. The state after the command is the same either way; a
  local variable the updater writes and the command reads right after the call
  (\<open>drewCard\<close>, \<open>depleted\<close> in \<open>draw\<close>) is written in time only in the first case. A
  command that reads such a variable takes a boolean \<open>eager\<close>: whether the updater has run
  by the time the variable is read.

  Numbers are integers. Card identifiers are strings; the empty string is the one falsy
  identifier of the source (\<open>!cardId\<close>). An optional field (\<open>deck?: string[]\<close>) is an
  option and \<open>x ?? d\<close> is \<open>coalesce x d\<close>. A \<open>CountMap\<close> is the list of its entries in
  insertion order; \<open>objectEntries\<close> puts them in the order in which \<open>Object.entries\<close>,
  \<open>Object.values\<close> and the spread of an object list them. The two functions that move a
  discarded card by its index (\<open>returnDiscardItemToDeck\<close>, \<open>returnDiscardItemToHand\<close>),
  which the component never calls, the saved decks and the rendering are left out.
\<close>

subsection \<open>Data\<close>

type_synonym CountMap = "(string \<times> int) list"
  \<comment> \<open>\<open>Record<string, number>\<close>, its entries in insertion order\<close>

datatype PlayState = Unspent | Played

datatype Origin = OriginPlayed | OriginDiscarded

datatype HandEntry = HandEntry (h_id: string) (h_state: PlayState)

datatype DiscardEntry = DiscardEntry (d_id: string) (d_origin: Origin)

record Card =
  card_id :: string
  card_cost :: "int option"

record SavedDeck =
  sd_name :: string
  sd_deck :: "string list"
  sd_baseCounts :: CountMap
  sd_modCounts :: CountMap
  sd_nullCount :: int
  sd_modifierCapacity :: int

record DeckBuilderState =
  baseCounts :: CountMap
  modCounts :: CountMap
  nullCount :: int
  modifierCapacity :: int
  hasBuiltDeck :: "bool option"
  hasShuffledDeck :: "bool option"
  deck :: "string list option"
  hand :: "HandEntry list option"
  discard :: "DiscardEntry list option"
  isLocked :: "bool option"
  deckName :: "string option"
  savedDecks :: "(string \<times> SavedDeck) list option"
  handLimit :: "int option"

record ActivePlaySel =
  baseId :: string
  mods :: "string list"

type_synonym ActivePlay = "ActivePlaySel option"

text \<open>The properties of the component (\<open>DeckBuilderProps\<close>) with their defaults resolved.\<close>

record Props =
  baseCards :: "Card list"
  modCards :: "Card list"
  nullCard :: "Card option"
  baseTarget :: int
  minNulls :: int
  modifierCapacityDefault :: int
  simpleCounters :: bool
  modCapacityAsCount :: bool
  baseInitialCount :: "int option"
  modInitialCount :: "int option"

text \<open>The hooks of the component. \<open>hookHasBuiltDeck\<close> and \<open>hookHasShuffledDeck\<close> are the
  \<open>useState\<close> variables \<open>hasBuiltDeck\<close> and \<open>hasShuffledDeck\<close>; the fields of the same
  names inside \<open>builderState\<close> are the persisted copies. \<open>basePrompt\<close> and \<open>modPrompt\<close> are
  the remove dialogs of a base and of a modifier card, \<open>None\<close> when closed.\<close>

record Prompt =
  prompt_id :: string
  prompt_qty :: int
  prompt_name :: "string option"

record Component =
  builderState :: DeckBuilderState
  activePlay :: ActivePlay
  hookHasBuiltDeck :: bool
  hookHasShuffledDeck :: bool
  opsError :: "string option"
  deckSeed :: int
  basePrompt :: "Prompt option"
  modPrompt :: "Prompt option"

subsection \<open>Constants and helpers\<close>

definition DEFAULT_HAND_LIMIT :: int where
  "DEFAULT_HAND_LIMIT = 5"

definition MAX_HAND_LIMIT :: int where
  "MAX_HAND_LIMIT = 20"

definition coalesce :: "'a option \<Rightarrow> 'a \<Rightarrow> 'a" where
  "coalesce x d = (case x of None \<Rightarrow> d | Some v \<Rightarrow> v)"

definition truthy :: "bool option \<Rightarrow> bool" where
  "truthy b = (b = Some True)"

definition clamp :: "int \<Rightarrow> int \<Rightarrow> int option \<Rightarrow> int" where
  "clamp v lo hi =
     (if v < lo then lo
      else case hi of
        None \<Rightarrow> v
      | Some m \<Rightarrow> if v > m then m else v)"

text \<open>
  \<open>Object.entries\<close>, \<open>Object.values\<close> and the spread of an object list the keys that are
  array indices first, in ascending numeric order, and then the other keys in insertion
  order. An array index is the canonical decimal string of an integer from 0 to
  \<open>2^32 - 2\<close>.
\<close>

definition isDigit :: "char \<Rightarrow> bool" where
  "isDigit ch = (ch \<in> set ''0123456789'')"

definition digitValue :: "char \<Rightarrow> nat" where
  "digitValue ch =
     (if ch = CHR ''1'' then 1 else if ch = CHR ''2'' then 2 else if ch = CHR ''3'' then 3
      else if ch = CHR ''4'' then 4 else if ch = CHR ''5'' then 5 else if ch = CHR ''6'' then 6
      else if ch = CHR ''7'' then 7 else if ch = CHR ''8'' then 8 else if ch = CHR ''9'' then 9
      else 0)"

definition indexValue :: "string \<Rightarrow> nat" where
  "indexValue k = foldl (\<lambda>acc ch. 10 * acc + digitValue ch) 0 k"

definition isArrayIndex :: "string \<Rightarrow> bool" where
  "isArrayIndex k =
     (k \<noteq> [] \<and> list_all isDigit k \<and> (hd k \<noteq> CHR ''0'' \<or> k = ''0'')
      \<and> indexValue k \<le> 4294967294)"

definition objectEntries :: "CountMap \<Rightarrow> (string \<times> int) list" where
  "objectEntries counts =
     sort_key (\<lambda>(k, v). indexValue k) (filter (\<lambda>(k, v). isArrayIndex k) counts)
     @ filter (\<lambda>(k, v). \<not> isArrayIndex k) counts"

definition sumCounts :: "CountMap \<Rightarrow> int" where
  \<comment> \<open>\<open>Object.values(counts).reduce((sum, qty) => sum + qty, 0)\<close>\<close>
  "sumCounts counts = foldl (\<lambda>total qty. total + qty) 0 (map snd (objectEntries counts))"

definition getCount :: "CountMap \<Rightarrow> string \<Rightarrow> int" where
  \<comment> \<open>\<open>counts[cardId] ?? 0\<close>\<close>
  "getCount counts cardId = coalesce (map_of counts cardId) 0"

fun setCount :: "string \<Rightarrow> int \<Rightarrow> CountMap \<Rightarrow> CountMap" where
  \<comment> \<open>\<open>counts[cardId] = v\<close>, also on the copy \<open>{ ...counts, [cardId]: v }\<close>: an existing key
      keeps its place, a new one goes last\<close>
  "setCount cardId v [] = [(cardId, v)]"
| "setCount cardId v ((k, q) # rest) =
     (if k = cardId then (k, v) # rest else (k, q) # setCount cardId v rest)"

definition buildInitialCounts :: "Card list \<Rightarrow> CountMap" where
  "buildInitialCounts cards = foldl (\<lambda>acc card. setCount (card_id card) 0 acc) [] cards"

definition defaultState :: "Card list \<Rightarrow> Card list \<Rightarrow> int \<Rightarrow> int \<Rightarrow> DeckBuilderState" where
  "defaultState bCards mCards minN defaultModCapacity =
     \<lparr> baseCounts = buildInitialCounts bCards,
       modCounts = buildInitialCounts mCards,
       nullCount = minN,
       modifierCapacity = defaultModCapacity,
       hasBuiltDeck = Some False,
       hasShuffledDeck = Some False,
       deck = Some [],
       hand = Some [],
       discard = Some [],
       isLocked = Some False,
       deckName = Some [],
       savedDecks = Some [],
       handLimit = Some DEFAULT_HAND_LIMIT \<rparr>"

definition primaryId :: "Card list \<Rightarrow> string option" where
  \<comment> \<open>\<open>cards[0]?.id\<close>\<close>
  "primaryId cards = (case cards of [] \<Rightarrow> None | c # _ \<Rightarrow> Some (card_id c))"

definition applyInitialCounts :: "Props \<Rightarrow> DeckBuilderState \<Rightarrow> DeckBuilderState" where
  "applyInitialCounts P state =
     (if \<not> simpleCounters P then state
      else
        let totalBase = sumCounts (baseCounts state);
            totalMod = sumCounts (modCounts state);
            next1 =
              (case primaryId (baseCards P) of
                 Some pid \<Rightarrow>
                   if pid \<noteq> [] \<and> totalBase = 0
                   then state\<lparr>baseCounts :=
                          setCount pid (coalesce (baseInitialCount P) (baseTarget P)) (baseCounts state)\<rparr>
                   else state
               | None \<Rightarrow> state)
        in (case primaryId (modCards P) of
              Some pid \<Rightarrow>
                if pid \<noteq> [] \<and> totalMod = 0
                then next1\<lparr>modCounts :=
                       setCount pid (coalesce (modInitialCount P) (modifierCapacityDefault P)) (modCounts next1)\<rparr>
                else next1
            | None \<Rightarrow> next1))"

text \<open>
  What \<open>loadState\<close> reads: the object \<open>JSON.parse\<close> returns for the entry under the storage
  key, every field of it optional. \<open>None\<close> stands for the cases in which \<open>loadState\<close> returns
  \<open>defaultState\<close>: no window, no entry, or an entry that makes the \<open>try\<close> block throw.
\<close>

record StoredState =
  st_baseCounts :: "CountMap option"
  st_modCounts :: "CountMap option"
  st_nullCount :: "int option"
  st_modifierCapacity :: "int option"
  st_hasBuiltDeck :: "bool option"
  st_hasShuffledDeck :: "bool option"
  st_deck :: "string list option"
  st_hand :: "HandEntry list option"
  st_discard :: "DiscardEntry list option"
  st_isLocked :: "bool option"
  st_deckName :: "string option"
  st_handLimit :: "int option"
  st_savedDecks :: "(string \<times> SavedDeck) list option"

definition mergeCounts :: "CountMap \<Rightarrow> CountMap \<Rightarrow> CountMap" where
  \<comment> \<open>\<open>{ ...a, ...b }\<close>\<close>
  "mergeCounts a b = foldl (\<lambda>acc (k, v). setCount k v acc) a (objectEntries b)"

definition loadState ::
  "Card list \<Rightarrow> Card list \<Rightarrow> StoredState option \<Rightarrow> int \<Rightarrow> int \<Rightarrow> DeckBuilderState" where
  \<comment> \<open>the third argument is what the storage holds under \<open>storageKey\<close>\<close>
  "loadState bCards mCards raw minN defaultModCapacity =
     (case raw of
        None \<Rightarrow> defaultState bCards mCards minN defaultModCapacity
      | Some parsed \<Rightarrow>
          \<lparr> baseCounts = mergeCounts (buildInitialCounts bCards) (coalesce (st_baseCounts parsed) []),
            modCounts = mergeCounts (buildInitialCounts mCards) (coalesce (st_modCounts parsed) []),
            nullCount = max (coalesce (st_nullCount parsed) minN) minN,
            modifierCapacity = coalesce (st_modifierCapacity parsed) defaultModCapacity,
            hasBuiltDeck = Some (coalesce (st_hasBuiltDeck parsed) False),
            hasShuffledDeck = Some (coalesce (st_hasShuffledDeck parsed) False),
            deck = Some (coalesce (st_deck parsed) []),
            hand = Some (coalesce (st_hand parsed) []),
            discard = Some (coalesce (st_discard parsed) []),
            isLocked = Some (coalesce (st_isLocked parsed) False),
            deckName = Some (coalesce (st_deckName parsed) []),
            savedDecks = Some (coalesce (st_savedDecks parsed) []),
            handLimit =
              Some (clamp (coalesce (st_handLimit parsed) DEFAULT_HAND_LIMIT) 0 (Some MAX_HAND_LIMIT)) \<rparr>)"

text \<open>The component as it is mounted, with \<open>raw\<close> in storage.\<close>

definition initialComponent :: "Props \<Rightarrow> StoredState option \<Rightarrow> Component" where
  "initialComponent P raw =
     (let initialState =
            applyInitialCounts P
              (loadState (baseCards P) (modCards P) raw (minNulls P) (modifierCapacityDefault P))
      in \<lparr> builderState = initialState,
           activePlay = None,
           hookHasBuiltDeck = coalesce (hasBuiltDeck initialState) False,
           hookHasShuffledDeck = coalesce (hasShuffledDeck initialState) False,
           opsError = None,
           deckSeed = 0,
           basePrompt = None,
           modPrompt = None \<rparr>)"

text \<open>What the component stores under the storage key after every change of the builder
  state or of the two lifecycle hooks: \<open>{ ...builderState, hasBuiltDeck, hasShuffledDeck }\<close>.\<close>

definition persisted :: "Component \<Rightarrow> StoredState" where
  "persisted c =
     (let s = builderState c
      in \<lparr> st_baseCounts = Some (baseCounts s),
           st_modCounts = Some (modCounts s),
           st_nullCount = Some (nullCount s),
           st_modifierCapacity = Some (modifierCapacity s),
           st_hasBuiltDeck = Some (hookHasBuiltDeck c),
           st_hasShuffledDeck = Some (hookHasShuffledDeck c),
           st_deck = deck s,
           st_hand = hand s,
           st_discard = discard s,
           st_isLocked = isLocked s,
           st_deckName = deckName s,
           st_handLimit = handLimit s,
           st_savedDecks = savedDecks s \<rparr>)"

definition deckOf :: "DeckBuilderState \<Rightarrow> string list" where
  "deckOf s = coalesce (deck s) []"

definition handOf :: "DeckBuilderState \<Rightarrow> HandEntry list" where
  "handOf s = coalesce (hand s) []"

definition discardOf :: "DeckBuilderState \<Rightarrow> DiscardEntry list" where
  "discardOf s = coalesce (discard s) []"

definition handLimitOf :: "DeckBuilderState \<Rightarrow> int" where
  "handLimitOf s = coalesce (handLimit s) DEFAULT_HAND_LIMIT"

definition splice1 :: "nat \<Rightarrow> 'a list \<Rightarrow> 'a list" where
  \<comment> \<open>the array after \<open>xs.splice(i, 1)\<close>, for an index \<open>i \<ge> 0\<close>\<close>
  "splice1 i xs = take i xs @ drop (Suc i) xs"

fun findIndex :: "('a \<Rightarrow> bool) \<Rightarrow> 'a list \<Rightarrow> int" where
  "findIndex p [] = - 1"
| "findIndex p (x # xs) =
     (if p x then 0
      else let r = findIndex p xs in if r = - 1 then - 1 else r + 1)"

subsection \<open>Capacity accounting and the composition validator\<close>

definition costOf :: "Card list \<Rightarrow> string \<Rightarrow> int" where
  \<comment> \<open>Modelled from the spec: the cost of the modifier with a given id, as
      utils/modCapacity (not among the sources) looks it up. A card without a cost, or an
      id without a card, counts 0, as \<open>c.cost ?? 0\<close> does in \<open>attachModifier\<close>.\<close>
  "costOf cards cardId =
     (case find (\<lambda>c. card_id c = cardId) cards of
        None \<Rightarrow> 0
      | Some c \<Rightarrow> coalesce (card_cost c) 0)"

definition getModCapacityUsed :: "Card list \<Rightarrow> CountMap \<Rightarrow> int" where
  \<comment> \<open>Modelled from the spec: \<open>getModCapacityUsed\<close> of utils/modCapacity is not among the
      sources. Cost-weighted policy: the sum over the modifier counts of count times the
      cost of that modifier.\<close>
  "getModCapacityUsed cards counts =
     sum_list (map (\<lambda>(cardId, qty). qty * costOf cards cardId) counts)"

definition canAddModCardFrom :: "Card list \<Rightarrow> DeckBuilderState \<Rightarrow> string \<Rightarrow> bool" where
  \<comment> \<open>Modelled from the spec: \<open>canAddModCardFrom\<close> of utils/modCapacity is not among the
      sources. Cost-weighted policy: current usage plus the cost of the card is at most
      the capacity.\<close>
  "canAddModCardFrom cards state cardId =
     (getModCapacityUsed cards (modCounts state) + costOf cards cardId \<le> modifierCapacity state)"

definition getModUsedSnapshot :: "Props \<Rightarrow> DeckBuilderState \<Rightarrow> int" where
  "getModUsedSnapshot P state =
     (if modCapacityAsCount P then sumCounts (modCounts state)
      else getModCapacityUsed (modCards P) (modCounts state))"

definition canAddModCardSnapshot :: "Props \<Rightarrow> DeckBuilderState \<Rightarrow> string \<Rightarrow> bool" where
  "canAddModCardSnapshot P state cardId =
     (if simpleCounters P \<and> modCapacityAsCount P then True
      else if modCapacityAsCount P then getModUsedSnapshot P state < modifierCapacity state
      else canAddModCardFrom (modCards P) state cardId)"

definition baseTotal :: "DeckBuilderState \<Rightarrow> int" where
  "baseTotal s = sumCounts (baseCounts s)"

definition modCapacityUsed :: "Props \<Rightarrow> DeckBuilderState \<Rightarrow> int" where
  "modCapacityUsed P s =
     (if modCapacityAsCount P then sumCounts (modCounts s)
      else getModCapacityUsed (modCards P) (modCounts s))"

definition baseValid :: "Props \<Rightarrow> DeckBuilderState \<Rightarrow> bool" where
  "baseValid P s = (if simpleCounters P then True else baseTotal s = baseTarget P)"

definition nullValid :: "Props \<Rightarrow> DeckBuilderState \<Rightarrow> bool" where
  "nullValid P s = (nullCount s \<ge> minNulls P)"

definition modValid :: "Props \<Rightarrow> DeckBuilderState \<Rightarrow> bool" where
  "modValid P s =
     (if simpleCounters P \<and> modCapacityAsCount P then True
      else modCapacityUsed P s \<le> modifierCapacity s)"

definition deckIsValid :: "Props \<Rightarrow> DeckBuilderState \<Rightarrow> bool" where
  "deckIsValid P s = (baseValid P s \<and> nullValid P s \<and> modValid P s)"

subsection \<open>Building and shuffling\<close>

definition repeatEntries :: "CountMap \<Rightarrow> string list" where
  \<comment> \<open>\<open>Object.entries(counts).forEach(([id, qty]) => { for (i < qty) out.push(id) })\<close>\<close>
  "repeatEntries counts =
     concat (map (\<lambda>(cardId, qty). replicate (nat qty) cardId) (objectEntries counts))"

definition buildDeckArray :: "Props \<Rightarrow> DeckBuilderState \<Rightarrow> string list" where
  "buildDeckArray P bs =
     repeatEntries (baseCounts bs) @ repeatEntries (modCounts bs) @
     (case nullCard P of
        None \<Rightarrow> []
      | Some nc \<Rightarrow>
          if nullCount bs \<noteq> 0 then replicate (nat (nullCount bs)) (card_id nc) else [])"

text \<open>
  \<open>shuffleInPlace\<close> runs \<open>i\<close> from \<open>arr.length - 1\<close> down to \<open>1\<close> and swaps \<open>arr[i]\<close> with
  \<open>arr[j]\<close>, \<open>j = Math.floor(Math.random() * (i + 1))\<close>. \<open>Math.random()\<close> lies in
  \<open>[0, 1)\<close>, so \<open>j\<close> is an index in \<open>0..i\<close>, and any of them. The random source is a
  function \<open>rnd\<close> of natural draws, one for each value of \<open>i\<close>, and \<open>j = rnd i mod (i + 1)\<close>.
\<close>

definition swap :: "'a list \<Rightarrow> nat \<Rightarrow> nat \<Rightarrow> 'a list" where
  \<comment> \<open>\<open>[arr[i], arr[j]] = [arr[j], arr[i]]\<close>\<close>
  "swap arr i j = arr[i := arr ! j, j := arr ! i]"

fun shuffleLoop :: "(nat \<Rightarrow> nat) \<Rightarrow> nat \<Rightarrow> 'a list \<Rightarrow> 'a list" where
  "shuffleLoop rnd 0 arr = arr"
| "shuffleLoop rnd (Suc k) arr =
     (let i = Suc k; j = rnd i mod (i + 1) in shuffleLoop rnd k (swap arr i j))"

definition shuffleInPlace :: "(nat \<Rightarrow> nat) \<Rightarrow> 'a list \<Rightarrow> 'a list" where
  "shuffleInPlace rnd arr = shuffleLoop rnd (length arr - 1) arr"

definition firstIndex :: "nat \<Rightarrow> nat" where
  \<comment> \<open>the random source whose every draw is 0\<close>
  "firstIndex i = 0"

subsection \<open>Commands on the zones\<close>

definition shuffleDeck :: "bool \<Rightarrow> (nat \<Rightarrow> nat) \<Rightarrow> Component \<Rightarrow> Component" where
  \<comment> \<open>\<open>confirmed\<close> is the answer of \<open>window.confirm\<close>, asked when the deck was shuffled before\<close>
  "shuffleDeck confirmed rnd c =
     (if hookHasShuffledDeck c \<and> \<not> confirmed then c
      else
        let prev = builderState c;
            currentDeck = deckOf prev;
            nextDeck = (if length currentDeck \<noteq> 0 then shuffleInPlace rnd currentDeck else currentDeck)
        in c\<lparr> builderState := prev\<lparr> deck := Some nextDeck, hasShuffledDeck := Some True \<rparr>,
              deckSeed := deckSeed c + 1,
              hookHasShuffledDeck := True,
              opsError := None \<rparr>)"

text \<open>The updater of \<open>draw\<close> with the two flags it sets: (next state, drewCard, depleted).
  \<open>draw\<close> declares the flags false, hands the updater to \<open>setBuilderState\<close> and tests the
  flags: they are the updater's when it has run (\<open>eager\<close>), and false otherwise.\<close>

definition drawUpdate :: "DeckBuilderState \<Rightarrow> DeckBuilderState \<times> bool \<times> bool" where
  "drawUpdate prev =
     (if \<not> truthy (isLocked prev) then (prev, False, False)
      else if int (length (handOf prev)) \<ge> handLimitOf prev then (prev, False, False)
      else if length (deckOf prev) = 0 then (prev, False, True)
      else
        let cardId = last (deckOf prev);
            deck' = butlast (deckOf prev)
        in if cardId = [] then (prev, False, True)
           else (prev\<lparr> deck := Some deck',
                       hand := Some (handOf prev @ [HandEntry cardId Unspent]),
                       discard := Some (discardOf prev) \<rparr>, True, False))"

definition draw :: "bool \<Rightarrow> Component \<Rightarrow> Component" where
  "draw eager c =
     (case drawUpdate (builderState c) of
        (next, set_drewCard, set_depleted) \<Rightarrow>
          let drewCard = (eager \<and> set_drewCard);
              depleted = (eager \<and> set_depleted);
              c1 = c\<lparr> builderState := next \<rparr>
          in if drewCard then c1\<lparr> deckSeed := deckSeed c + 1, opsError := None \<rparr>
             else if depleted
             then c1\<lparr> opsError := Some ''Deck depleted. Refill or rebuild to continue drawing.'' \<rparr>
             else c1)"

definition needsLock :: "Component \<Rightarrow> bool" where
  "needsLock c = (\<not> truthy (isLocked (builderState c)))"

definition needsBuild :: "Component \<Rightarrow> bool" where
  "needsBuild c = (truthy (isLocked (builderState c)) \<and> \<not> hookHasBuiltDeck c)"

definition needsShuffle :: "Component \<Rightarrow> bool" where
  "needsShuffle c =
     (truthy (isLocked (builderState c)) \<and> hookHasBuiltDeck c \<and> \<not> hookHasShuffledDeck c)"

definition handleDraw :: "bool \<Rightarrow> Component \<Rightarrow> Component" where
  "handleDraw eager c =
     (if needsLock c then c\<lparr> opsError := Some ''Lock the deck before drawing.'' \<rparr>
      else if needsBuild c then c\<lparr> opsError := Some ''Build the deck before drawing.'' \<rparr>
      else if needsShuffle c then c\<lparr> opsError := Some ''Shuffle the deck before drawing.'' \<rparr>
      else draw eager c)"

definition pressDraw :: "bool \<Rightarrow> Component \<Rightarrow> Component" where
  \<comment> \<open>the Draw button, the one call site of \<open>handleDraw\<close>: disabled with the hand at its limit\<close>
  "pressDraw eager c =
     (if int (length (handOf (builderState c))) \<ge> handLimitOf (builderState c) then c
      else handleDraw eager c)"

fun discardFromDeckLoop :: "nat \<Rightarrow> string list \<Rightarrow> DiscardEntry list \<Rightarrow> string list \<times> DiscardEntry list" where
  "discardFromDeckLoop 0 dk dc = (dk, dc)"
| "discardFromDeckLoop (Suc n) dk dc =
     (if dk = [] then (dk, dc)
      else
        let cardId = last dk; dk' = butlast dk
        in if cardId = [] then (dk', dc)
           else discardFromDeckLoop n dk' (dc @ [DiscardEntry cardId OriginDiscarded]))"

definition discardFromDeck :: "int \<Rightarrow> Component \<Rightarrow> Component" where
  "discardFromDeck cnt c =
     (let prev = builderState c in
      case discardFromDeckLoop (nat cnt) (deckOf prev) (discardOf prev) of
        (dk, dc) \<Rightarrow>
          c\<lparr> builderState := prev\<lparr> deck := Some dk, discard := Some dc \<rparr>,
             deckSeed := deckSeed c + 1 \<rparr>)"

definition returnDiscardToDeck ::
  "bool \<Rightarrow> bool \<Rightarrow> (nat \<Rightarrow> nat) \<Rightarrow> (nat \<Rightarrow> nat) \<Rightarrow> Component \<Rightarrow> Component" where
  \<comment> \<open>\<open>rnd1\<close> drives the shuffle of the moved ids, \<open>rnd2\<close> the shuffle of the whole deck\<close>
  "returnDiscardToDeck shuffle toTop rnd1 rnd2 c =
     (let prev = builderState c;
          ids0 = map d_id (discardOf prev);
          ids = (if shuffle then shuffleInPlace rnd1 ids0 else ids0);
          deck1 = (if toTop then deckOf prev @ ids else ids @ deckOf prev);
          deck2 = (if shuffle then shuffleInPlace rnd2 deck1 else deck1)
      in c\<lparr> builderState := prev\<lparr> deck := Some deck2, discard := Some [] \<rparr>,
            deckSeed := deckSeed c + 1 \<rparr>)"

definition returnDiscardGroupToDeckUpdate :: "string \<Rightarrow> bool \<Rightarrow> DeckBuilderState \<Rightarrow> DeckBuilderState" where
  "returnDiscardGroupToDeckUpdate cardId all prev =
     (if all then
        let idsToMove = map d_id (filter (\<lambda>d. d_id d = cardId) (discardOf prev));
            remaining = filter (\<lambda>d. d_id d \<noteq> cardId) (discardOf prev)
        in prev\<lparr> discard := Some remaining, deck := Some (deckOf prev @ idsToMove) \<rparr>
      else
        let idx = findIndex (\<lambda>d. d_id d = cardId) (discardOf prev)
        in if idx = - 1 then prev
           else
             let it = discardOf prev ! nat idx
             in prev\<lparr> discard := Some (splice1 (nat idx) (discardOf prev)),
                      deck := Some (deckOf prev @ [d_id it]) \<rparr>)"

definition returnDiscardGroupToDeck :: "string \<Rightarrow> bool \<Rightarrow> Component \<Rightarrow> Component" where
  "returnDiscardGroupToDeck cardId all c =
     c\<lparr> builderState := returnDiscardGroupToDeckUpdate cardId all (builderState c) \<rparr>"

text \<open>The loop of \<open>returnDiscardGroupToHand\<close>: \<open>i\<close> runs from \<open>discard.length - 1\<close> down to
  \<open>0\<close> while \<open>moved.length < space\<close>; the first argument is \<open>i + 1\<close>.\<close>

fun toHandLoop ::
  "nat \<Rightarrow> string \<Rightarrow> bool \<Rightarrow> nat \<Rightarrow> DiscardEntry list \<Rightarrow> DiscardEntry list
     \<Rightarrow> DiscardEntry list \<times> DiscardEntry list" where
  "toHandLoop 0 cardId all space dc moved = (dc, moved)"
| "toHandLoop (Suc i) cardId all space dc moved =
     (if length moved < space then
        (if d_id (dc ! i) = cardId then
           (if \<not> all then (splice1 i dc, moved @ [dc ! i])
            else toHandLoop i cardId all space (splice1 i dc) (moved @ [dc ! i]))
         else toHandLoop i cardId all space dc moved)
      else (dc, moved))"

definition returnDiscardGroupToHandUpdate :: "string \<Rightarrow> bool \<Rightarrow> DeckBuilderState \<Rightarrow> DeckBuilderState" where
  "returnDiscardGroupToHandUpdate cardId all prev =
     (let limit = handLimitOf prev;
          space = max 0 (limit - int (length (handOf prev)))
      in if space \<le> 0 then prev
         else
           case toHandLoop (length (discardOf prev)) cardId all (nat space) (discardOf prev) [] of
             (dc, moved) \<Rightarrow>
               if length moved = 0 then prev
               else prev\<lparr> discard := Some dc,
                          hand := Some (handOf prev @ map (\<lambda>m. HandEntry (d_id m) Unspent) moved) \<rparr>)"

definition returnDiscardGroupToHand :: "string \<Rightarrow> bool \<Rightarrow> Component \<Rightarrow> Component" where
  "returnDiscardGroupToHand cardId all c =
     c\<lparr> builderState := returnDiscardGroupToHandUpdate cardId all (builderState c) \<rparr>"

text \<open>The loop of \<open>discardGroupFromHand\<close> for \<open>all\<close>: \<open>i\<close> runs from \<open>hand.length - 1\<close> down
  to \<open>0\<close>; the first argument is \<open>i + 1\<close>.\<close>

fun fromHandLoop ::
  "nat \<Rightarrow> string \<Rightarrow> HandEntry list \<Rightarrow> HandEntry list \<Rightarrow> HandEntry list \<times> HandEntry list" where
  "fromHandLoop 0 cardId hnd removed = (hnd, removed)"
| "fromHandLoop (Suc i) cardId hnd removed =
     (if h_id (hnd ! i) = cardId
      then fromHandLoop i cardId (splice1 i hnd) (removed @ [hnd ! i])
      else fromHandLoop i cardId hnd removed)"

definition discardGroupFromHandUpdate ::
  "string \<Rightarrow> bool \<Rightarrow> Origin \<Rightarrow> DeckBuilderState \<Rightarrow> DeckBuilderState" where
  "discardGroupFromHandUpdate cardId all origin prev =
     (case (if all then fromHandLoop (length (handOf prev)) cardId (handOf prev) []
            else
              let idx = findIndex (\<lambda>h. h_id h = cardId) (handOf prev)
              in if idx \<ge> 0 then (splice1 (nat idx) (handOf prev), [handOf prev ! nat idx])
                 else (handOf prev, [])) of
        (hnd, removed) \<Rightarrow>
          if length removed = 0 then prev
          else prev\<lparr> hand := Some hnd,
                     discard := Some (discardOf prev @ map (\<lambda>r. DiscardEntry (h_id r) origin) removed) \<rparr>)"

definition discardGroupFromHand :: "string \<Rightarrow> bool \<Rightarrow> Origin \<Rightarrow> Component \<Rightarrow> Component" where
  "discardGroupFromHand cardId all origin c =
     c\<lparr> builderState := discardGroupFromHandUpdate cardId all origin (builderState c) \<rparr>"

subsection \<open>Lock, composition and hand limit\<close>

definition toggleLockDeck :: "Props \<Rightarrow> (nat \<Rightarrow> nat) \<Rightarrow> Component \<Rightarrow> Component" where
  "toggleLockDeck P rnd c =
     (let prev = builderState c;
          nextLocked = (\<not> truthy (isLocked prev))
      in if nextLocked then
           let built = shuffleInPlace rnd (buildDeckArray P prev)
           in c\<lparr> builderState :=
                    prev\<lparr> isLocked := Some nextLocked, deck := Some built, hand := Some [],
                          discard := Some [], hasBuiltDeck := Some True,
                          hasShuffledDeck := Some False \<rparr>,
                 hookHasBuiltDeck := True,
                 hookHasShuffledDeck := False,
                 opsError := Some ''Shuffle the deck before drawing.'',
                 deckSeed := deckSeed c + 1 \<rparr>
         else
           c\<lparr> builderState :=
                 prev\<lparr> isLocked := Some nextLocked, hasBuiltDeck := Some False,
                       hasShuffledDeck := Some False \<rparr>,
              hookHasBuiltDeck := False,
              hookHasShuffledDeck := False,
              opsError := None,
              deckSeed := deckSeed c + 1 \<rparr>)"

definition adjustBaseCountUpdate :: "Props \<Rightarrow> string \<Rightarrow> int \<Rightarrow> DeckBuilderState \<Rightarrow> DeckBuilderState" where
  "adjustBaseCountUpdate P cardId delta prev =
     (let current = getCount (baseCounts prev) cardId;
          next = clamp (current + delta) 0 None;
          prevTotal = sumCounts (baseCounts prev);
          newTotal = prevTotal - current + next
      in if \<not> simpleCounters P \<and> newTotal > baseTarget P then prev
         else prev\<lparr> baseCounts := setCount cardId next (baseCounts prev) \<rparr>)"

definition adjustBaseCount :: "Props \<Rightarrow> string \<Rightarrow> int \<Rightarrow> Component \<Rightarrow> Component" where
  "adjustBaseCount P cardId delta c =
     c\<lparr> builderState := adjustBaseCountUpdate P cardId delta (builderState c) \<rparr>"

definition adjustModCountUpdate :: "Props \<Rightarrow> string \<Rightarrow> int \<Rightarrow> DeckBuilderState \<Rightarrow> DeckBuilderState" where
  "adjustModCountUpdate P cardId delta prev =
     (if truthy (isLocked prev) then prev
      else if delta > 0 \<and> \<not> canAddModCardSnapshot P prev cardId then prev
      else prev\<lparr> modCounts :=
                   setCount cardId (clamp (getCount (modCounts prev) cardId + delta) 0 None)
                     (modCounts prev) \<rparr>)"

definition adjustModCount :: "Props \<Rightarrow> string \<Rightarrow> int \<Rightarrow> Component \<Rightarrow> Component" where
  "adjustModCount P cardId delta c =
     c\<lparr> builderState := adjustModCountUpdate P cardId delta (builderState c) \<rparr>"

definition adjustNullCountUpdate :: "Props \<Rightarrow> int \<Rightarrow> DeckBuilderState \<Rightarrow> DeckBuilderState" where
  "adjustNullCountUpdate P delta prev =
     prev\<lparr> nullCount := clamp (nullCount prev + delta) (minNulls P) None \<rparr>"

definition adjustNullCount :: "Props \<Rightarrow> int \<Rightarrow> Component \<Rightarrow> Component" where
  "adjustNullCount P delta c =
     c\<lparr> builderState := adjustNullCountUpdate P delta (builderState c) \<rparr>"

text \<open>
  \<open>adjustBaseCount\<close>, \<open>adjustModCount\<close> and \<open>adjustNullCount\<close> are local to the component.
  What follows are all their call sites: the handlers that call them, and the controls
  that call the handlers. A button rendered with \<open>disabled\<close> set fires no click; a tap
  on a card is the pointer-up that \<open>endPress\<close> and \<open>endModPress\<close> pass to
  \<open>handleBaseIncrement\<close> and \<open>handleModIncrement\<close>.
\<close>

definition adjustPrimaryBaseCount :: "Props \<Rightarrow> int \<Rightarrow> Component \<Rightarrow> Component" where
  "adjustPrimaryBaseCount P delta c =
     (case primaryId (baseCards P) of
        None \<Rightarrow> c
      | Some pid \<Rightarrow> if pid = [] then c else adjustBaseCount P pid delta c)"

definition handleBaseIncrement :: "Props \<Rightarrow> string \<Rightarrow> Component \<Rightarrow> Component" where
  "handleBaseIncrement P cardId c =
     (if truthy (isLocked (builderState c)) then c else adjustBaseCount P cardId 1 c)"

definition handleBaseRemoveAction :: "Props \<Rightarrow> bool \<Rightarrow> Component \<Rightarrow> Component" where
  "handleBaseRemoveAction P removeAll' c =
     (case basePrompt c of
        None \<Rightarrow> c
      | Some pr \<Rightarrow>
          let currentQty = getCount (baseCounts (builderState c)) (prompt_id pr);
              delta = (if removeAll' then - currentQty else - 1);
              c1 = (if delta \<noteq> 0 then adjustBaseCount P (prompt_id pr) delta c else c)
          in c1\<lparr> basePrompt := None \<rparr>)"

definition adjustPrimaryModCount :: "Props \<Rightarrow> int \<Rightarrow> Component \<Rightarrow> Component" where
  "adjustPrimaryModCount P delta c =
     (case primaryId (modCards P) of
        None \<Rightarrow> c
      | Some pid \<Rightarrow> if pid = [] then c else adjustModCount P pid delta c)"

definition handleModIncrement :: "Props \<Rightarrow> string \<Rightarrow> Component \<Rightarrow> Component" where
  "handleModIncrement P cardId c =
     (if truthy (isLocked (builderState c)) then c else adjustModCount P cardId 1 c)"

definition handleModRemoveAction :: "Props \<Rightarrow> bool \<Rightarrow> Component \<Rightarrow> Component" where
  "handleModRemoveAction P removeAll' c =
     (case modPrompt c of
        None \<Rightarrow> c
      | Some pr \<Rightarrow>
          let currentQty = getCount (modCounts (builderState c)) (prompt_id pr);
              delta = (if removeAll' then - currentQty else - 1);
              c1 = (if delta \<noteq> 0 then adjustModCount P (prompt_id pr) delta c else c)
          in c1\<lparr> modPrompt := None \<rparr>)"

definition canAddModCard :: "Props \<Rightarrow> Component \<Rightarrow> string \<Rightarrow> bool" where
  "canAddModCard P c cardId =
     (if simpleCounters P \<and> modCapacityAsCount P then True
      else if modCapacityAsCount P
      then getModUsedSnapshot P (builderState c) < modifierCapacity (builderState c)
      else canAddModCardFrom (modCards P) (builderState c) cardId)"

datatype CountControl =
    BaseMinusButton
  | BasePlusButton
  | BaseCardTap string
  | BaseRemoveButton bool
  | ModMinusButton
  | ModPlusButton
  | ModCardTap string
  | ModRemoveButton bool
  | NullMinusButton
  | NullPlusButton

fun disabled :: "Props \<Rightarrow> CountControl \<Rightarrow> Component \<Rightarrow> bool" where
  "disabled P BaseMinusButton c = truthy (isLocked (builderState c))"
| "disabled P BasePlusButton c =
     (truthy (isLocked (builderState c))
      \<or> (\<not> simpleCounters P \<and> baseTotal (builderState c) \<ge> baseTarget P))"
| "disabled P (BaseCardTap cardId) c = False"
| "disabled P (BaseRemoveButton removeAll') c = truthy (isLocked (builderState c))"
| "disabled P ModMinusButton c = truthy (isLocked (builderState c))"
| "disabled P ModPlusButton c =
     (truthy (isLocked (builderState c))
      \<or> (\<not> simpleCounters P \<and> \<not> canAddModCard P c (coalesce (primaryId (modCards P)) [])))"
| "disabled P (ModCardTap cardId) c = False"
| "disabled P (ModRemoveButton removeAll') c = truthy (isLocked (builderState c))"
| "disabled P NullMinusButton c =
     (nullCount (builderState c) \<le> minNulls P \<or> truthy (isLocked (builderState c)))"
| "disabled P NullPlusButton c = truthy (isLocked (builderState c))"

fun handler :: "Props \<Rightarrow> CountControl \<Rightarrow> Component \<Rightarrow> Component" where
  "handler P BaseMinusButton c = adjustPrimaryBaseCount P (- 1) c"
| "handler P BasePlusButton c = adjustPrimaryBaseCount P 1 c"
| "handler P (BaseCardTap cardId) c = handleBaseIncrement P cardId c"
| "handler P (BaseRemoveButton removeAll') c = handleBaseRemoveAction P removeAll' c"
| "handler P ModMinusButton c = adjustPrimaryModCount P (- 1) c"
| "handler P ModPlusButton c = adjustPrimaryModCount P 1 c"
| "handler P (ModCardTap cardId) c = handleModIncrement P cardId c"
| "handler P (ModRemoveButton removeAll') c = handleModRemoveAction P removeAll' c"
| "handler P NullMinusButton c = adjustNullCount P (- 1) c"
| "handler P NullPlusButton c = adjustNullCount P 1 c"

definition press :: "Props \<Rightarrow> CountControl \<Rightarrow> Component \<Rightarrow> Component" where
  "press P ctl c = (if disabled P ctl c then c else handler P ctl c)"

definition setHandLimit :: "int option \<Rightarrow> Component \<Rightarrow> Component" where
  \<comment> \<open>the \<open>onChange\<close> handler of the hand limit input; \<open>None\<close> is an input that
      \<open>Number.parseInt\<close> reads as \<open>NaN\<close>\<close>
  "setHandLimit next c =
     (let prev = builderState c
      in c\<lparr> builderState :=
              prev\<lparr> handLimit :=
                      (case next of
                         None \<Rightarrow> Some (coalesce (handLimit prev) DEFAULT_HAND_LIMIT)
                       | Some n \<Rightarrow> Some (clamp n 0 (Some MAX_HAND_LIMIT))) \<rparr> \<rparr>)"

subsection \<open>Finalizing a play\<close>

definition finalizeSelection :: "ActivePlay \<Rightarrow> ActivePlaySel option" where
  \<comment> \<open>Modelled from the spec: \<open>finalizeSelection\<close> of utils/playFlow is not among the
      sources. Finalize is valid only when a base is selected; the modifiers may be empty.\<close>
  "finalizeSelection ap =
     (case ap of
        None \<Rightarrow> None
      | Some sel \<Rightarrow> if baseId sel = [] then None else Some sel)"

definition finalizePlay :: "Component \<Rightarrow> Component" where
  "finalizePlay c =
     (case finalizeSelection (activePlay c) of
        None \<Rightarrow> c
      | Some sel \<Rightarrow>
          c\<lparr> builderState :=
                foldl (\<lambda>s m. discardGroupFromHandUpdate m False OriginPlayed s)
                  (discardGroupFromHandUpdate (baseId sel) False OriginPlayed (builderState c))
                  (mods sel),
             activePlay := None \<rparr>)"

text \<open>For stating what \<open>finalizePlay\<close> does to the hand: the hand without its first entry
  of a given id, the hand after a list of ids was taken out one after the other, and the
  ids of that list that were found in the hand at their turn.\<close>

fun removeFirstId :: "string \<Rightarrow> HandEntry list \<Rightarrow> HandEntry list" where
  "removeFirstId m [] = []"
| "removeFirstId m (h # hs) = (if h_id h = m then hs else h # removeFirstId m hs)"

fun handWithout :: "HandEntry list \<Rightarrow> string list \<Rightarrow> HandEntry list" where
  "handWithout hs [] = hs"
| "handWithout hs (m # ms) = handWithout (removeFirstId m hs) ms"

fun movedIds :: "HandEntry list \<Rightarrow> string list \<Rightarrow> string list" where
  "movedIds hs [] = []"
| "movedIds hs (m # ms) =
     (if m \<in> h_id ` set hs then m # movedIds (removeFirstId m hs) ms else movedIds hs ms)"

subsection \<open>Commands in sequence\<close>

datatype Command =
    AdjustBaseCount string int
  | AdjustModCount string int
  | AdjustNullCount int
  | ToggleLockDeck "nat \<Rightarrow> nat"
  | ShuffleDeck bool "nat \<Rightarrow> nat"
  | HandleDraw bool
  | Draw bool
  | DiscardFromDeck int
  | ReturnDiscardToDeck bool bool "nat \<Rightarrow> nat" "nat \<Rightarrow> nat"
  | ReturnDiscardGroupToDeck string bool
  | ReturnDiscardGroupToHand string bool
  | DiscardGroupFromHand string bool Origin
  | FinalizePlay
  | SetHandLimit "int option"

fun exec :: "Props \<Rightarrow> Command \<Rightarrow> Component \<Rightarrow> Component" where
  "exec P (AdjustBaseCount cardId delta) c = adjustBaseCount P cardId delta c"
| "exec P (AdjustModCount cardId delta) c = adjustModCount P cardId delta c"
| "exec P (AdjustNullCount delta) c = adjustNullCount P delta c"
| "exec P (ToggleLockDeck rnd) c = toggleLockDeck P rnd c"
| "exec P (ShuffleDeck confirmed rnd) c = shuffleDeck confirmed rnd c"
| "exec P (HandleDraw eager) c = handleDraw eager c"
| "exec P (Draw eager) c = draw eager c"
| "exec P (DiscardFromDeck cnt) c = discardFromDeck cnt c"
| "exec P (ReturnDiscardToDeck shuffle toTop rnd1 rnd2) c = returnDiscardToDeck shuffle toTop rnd1 rnd2 c"
| "exec P (ReturnDiscardGroupToDeck cardId all) c = returnDiscardGroupToDeck cardId all c"
| "exec P (ReturnDiscardGroupToHand cardId all) c = returnDiscardGroupToHand cardId all c"
| "exec P (DiscardGroupFromHand cardId all origin) c = discardGroupFromHand cardId all origin c"
| "exec P FinalizePlay c = finalizePlay c"
| "exec P (SetHandLimit next) c = setHandLimit next c"

definition run :: "Props \<Rightarrow> Command list \<Rightarrow> Component \<Rightarrow> Component" where
  "run P cmds c = foldl (\<lambda>s cmd. exec P cmd s) c cmds"




subsection \<open>The composition as a multiset, and a catalog for the examples\<close>

text \<open>The deck a composition stands for: each base id repeated by its count, each modifier
  id repeated by its count, and the id of the null card repeated \<open>nullCount\<close> times (no
  null entries when the catalog has no null card).\<close>

definition compositionMset :: "Props \<Rightarrow> DeckBuilderState \<Rightarrow> string multiset" where
  "compositionMset P bs =
     (\<Sum>(cardId, qty)\<leftarrow>baseCounts bs. replicate_mset (nat qty) cardId)
     + (\<Sum>(cardId, qty)\<leftarrow>modCounts bs. replicate_mset (nat qty) cardId)
     + (case nullCard P of
          None \<Rightarrow> {#}
        | Some nc \<Rightarrow> replicate_mset (nat (nullCount bs)) (card_id nc))"

text \<open>The catalog of the scenarios: one base card, one modifier of cost 2, one null card;
  base target 26, at least 5 nulls, modifier capacity 10, cost-weighted.\<close>

definition exampleProps :: Props where
  "exampleProps =
     \<lparr> baseCards = [\<lparr> card_id = ''B1'', card_cost = None \<rparr>],
       modCards = [\<lparr> card_id = ''M1'', card_cost = Some 2 \<rparr>],
       nullCard = Some \<lparr> card_id = ''N0'', card_cost = None \<rparr>,
       baseTarget = 26,
       minNulls = 5,
       modifierCapacityDefault = 10,
       simpleCounters = False,
       modCapacityAsCount = False,
       baseInitialCount = None,
       modInitialCount = None \<rparr>"

definition lockedExample :: Component where
  \<comment> \<open>one base card added, then the deck locked\<close>
  "lockedExample =
     run exampleProps [AdjustBaseCount ''B1'' 1, ToggleLockDeck firstIndex]
       (initialComponent exampleProps None)"

definition readyExample :: Component where
  \<comment> \<open>locked and shuffled: the deck is ready for drawing\<close>
  "readyExample = shuffleDeck True firstIndex lockedExample"

definition playedExample :: Component where
  \<comment> \<open>two cards drawn, the second one discarded from the hand\<close>
  "playedExample =
     run exampleProps [HandleDraw True, HandleDraw True, DiscardGroupFromHand ''N0'' False OriginDiscarded]
       readyExample"

definition emptyDeckExample :: Component where
  \<comment> \<open>the default composition of five nulls locked and shuffled, all five cards drawn and
      one of them discarded from the hand: the deck is empty, the hand has room\<close>
  "emptyDeckExample =
     run exampleProps
       [ToggleLockDeck firstIndex, ShuffleDeck True firstIndex,
        HandleDraw True, HandleDraw True, HandleDraw True, HandleDraw True, HandleDraw True,
        DiscardGroupFromHand ''N0'' False OriginDiscarded]
       (initialComponent exampleProps None)"

definition fullHandExample :: Component where
  \<comment> \<open>ready, and five cards drawn: the hand is at its limit\<close>
  "fullHandExample =
     run exampleProps [HandleDraw True, HandleDraw True, HandleDraw True, HandleDraw True, HandleDraw True] readyExample"

text \<open>The one command that writes \<open>handLimit\<close>.\<close>

fun changesHandLimit :: "Command \<Rightarrow> bool" where
  "changesHandLimit (SetHandLimit next) = True"
| "changesHandLimit _ = False"

definition handLimitExample :: Component where
  \<comment> \<open>one card drawn into the hand, then the hand limit set to 0\<close>
  "handLimitExample = run exampleProps [HandleDraw True, SetHandLimit (Some 0)] readyExample"



text \<open>A play in progress: the modifier and the base card drawn into the hand, the base card
  selected and the modifier attached (the state \<open>startPlayBase\<close> and \<open>attachModifier\<close> leave,
  as the spec describes it); and the same play after the base card was discarded from the
  hand with the Discard button.\<close>

definition playExample :: Component where
  "playExample =
     (run exampleProps
        [AdjustBaseCount ''B1'' 1, AdjustModCount ''M1'' 1, ToggleLockDeck firstIndex,
         ShuffleDeck True firstIndex, HandleDraw True, HandleDraw True]
        (initialComponent exampleProps None))
     \<lparr> activePlay := Some \<lparr> baseId = ''B1'', mods = [''M1''] \<rparr> \<rparr>"

definition abandonedPlayExample :: Component where
  "abandonedPlayExample = discardGroupFromHand ''B1'' False OriginDiscarded playExample"

text \<open>A hand with two entries of the selected base card: two base cards, the modifier
  and five nulls locked and shuffled, the hand limit raised to 8, all eight cards drawn,
  and the first base card discarded from the hand and returned to it, which puts it last.\<close>

definition duplicatePlayExample :: Component where
  "duplicatePlayExample =
     (run exampleProps
        [AdjustBaseCount ''B1'' 1, AdjustBaseCount ''B1'' 1, AdjustModCount ''M1'' 1,
         ToggleLockDeck firstIndex, ShuffleDeck True firstIndex, SetHandLimit (Some 8),
         HandleDraw True, HandleDraw True, HandleDraw True, HandleDraw True,
         HandleDraw True, HandleDraw True, HandleDraw True, HandleDraw True,
         DiscardGroupFromHand ''B1'' False OriginDiscarded, ReturnDiscardGroupToHand ''B1'' False]
        (initialComponent exampleProps None))
     \<lparr> activePlay := Some \<lparr> baseId = ''B1'', mods = [''M1''] \<rparr> \<rparr>"

section \<open>Properties\<close>

subsection \<open>Shuffling\<close>

lemma length_swap: "length (swap arr i j) = length arr"
  by (simp add: swap_def)

lemma mset_swap_in_range: "i < length arr \<Longrightarrow> j < length arr \<Longrightarrow> mset (swap arr i j) = mset arr"
  unfolding swap_def by (rule mset_swap)

lemma shuffleLoop_perm: "k < length arr \<or> k = 0 \<Longrightarrow> mset (shuffleLoop rnd k arr) = mset arr"
proof (induction k arbitrary: arr)
  case 0
  show ?case by simp
next
  case (Suc k)
  from Suc.prems have k: "Suc k < length arr" by simp
  have "rnd (Suc k) mod (Suc k + 1) < Suc k + 1"
    by (rule mod_less_divisor) simp
  with k have j: "rnd (Suc k) mod (Suc k + 1) < length arr"
    by linarith
  have "mset (shuffleLoop rnd k (swap arr (Suc k) (rnd (Suc k) mod (Suc k + 1)))) =
        mset (swap arr (Suc k) (rnd (Suc k) mod (Suc k + 1)))"
    using k by (intro Suc.IH) (simp add: length_swap)
  also have "\<dots> = mset arr"
    using k j by (rule mset_swap_in_range)
  finally show ?case by (simp add: Let_def)
qed

lemma shuffleInPlace_perm: "mset (shuffleInPlace rnd arr) = mset arr"
  unfolding shuffleInPlace_def by (rule shuffleLoop_perm) (cases arr; simp)

lemma shuffleInPlace_length: "length (shuffleInPlace rnd arr) = length arr"
  using shuffleInPlace_perm [of rnd arr] by (rule mset_eq_length)

text \<open>
  Claim C7. For every deck and every choice of the random indices, \<open>shuffleInPlace\<close>
  returns a permutation of its argument, and after \<open>shuffleDeck\<close> the deck is a permutation
  of the deck before: the same length and, for every card id, the same number of copies.
  The hand and the discard pile are the ones before. This holds on both paths of
  \<open>shuffleDeck\<close>: the shuffle itself, and the return without a change when a repeated
  shuffle is not confirmed.
\<close>

theorem shuffleDeck_permutation:
  "mset (shuffleInPlace rnd arr) = mset arr
   \<and> length (shuffleInPlace rnd arr) = length arr
   \<and> mset (deckOf (builderState (shuffleDeck confirmed rnd c))) = mset (deckOf (builderState c))
   \<and> length (deckOf (builderState (shuffleDeck confirmed rnd c))) = length (deckOf (builderState c))
   \<and> (\<forall>cardId. count (mset (deckOf (builderState (shuffleDeck confirmed rnd c)))) cardId
                 = count (mset (deckOf (builderState c))) cardId)
   \<and> hand (builderState (shuffleDeck confirmed rnd c)) = hand (builderState c)
   \<and> discard (builderState (shuffleDeck confirmed rnd c)) = discard (builderState c)"
proof -
  have m: "mset (deckOf (builderState (shuffleDeck confirmed rnd c))) = mset (deckOf (builderState c))"
    by (simp add: shuffleDeck_def Let_def deckOf_def coalesce_def shuffleInPlace_perm)
  have z: "hand (builderState (shuffleDeck confirmed rnd c)) = hand (builderState c)
        \<and> discard (builderState (shuffleDeck confirmed rnd c)) = discard (builderState c)"
    by (simp add: shuffleDeck_def Let_def)
  from m have l: "length (deckOf (builderState (shuffleDeck confirmed rnd c))) = length (deckOf (builderState c))"
    by (rule mset_eq_length)
  show ?thesis
    using m z l by (simp add: shuffleInPlace_perm shuffleInPlace_length)
qed

subsection \<open>The composition validator\<close>

lemma foldl_plus_acc: "foldl (\<lambda>total qty. total + qty) a xs = a + sum_list xs" for a :: int
  by (induction xs arbitrary: a) simp_all

lemma objectEntries_order:
  "objectEntries [(''B1'', 1), (''10'', 2), (''2'', 3), (''M1'', 4), (''02'', 5)]
     = [(''2'', 3), (''10'', 2), (''B1'', 1), (''M1'', 4), (''02'', 5)]"
  by (simp add: objectEntries_def isArrayIndex_def isDigit_def indexValue_def digitValue_def)

lemma mset_objectEntries: "mset (objectEntries counts) = mset counts"
  by (induction counts) (auto simp add: objectEntries_def)

lemma sum_list_objectEntries:
  "sum_list (map f (objectEntries counts)) = sum_list (map f counts)"
  for f :: "string \<times> int \<Rightarrow> 'a::comm_monoid_add"
proof -
  have "sum_mset (image_mset f (mset (objectEntries counts))) = sum_mset (image_mset f (mset counts))"
    by (simp only: mset_objectEntries)
  then show ?thesis
    by (simp only: mset_map [symmetric] sum_mset_sum_list)
qed

lemma sumCounts_sum_list: "sumCounts counts = sum_list (map snd counts)"
  by (simp add: sumCounts_def foldl_plus_acc sum_list_objectEntries)

text \<open>
  Claim C3. The validator is a function of the composition alone. \<open>baseValid\<close> holds iff the
  base counts sum to \<open>baseTarget\<close>, and always in simple-counters mode; \<open>nullValid\<close> holds
  iff \<open>nullCount \<ge> minNulls\<close>; \<open>modValid\<close> holds iff the modifier capacity used is at most
  \<open>modifierCapacity\<close>, and always when simple-counters mode and capacity-as-raw-count mode
  are both set; the capacity used is the sum of the raw counts in capacity-as-raw-count
  mode and the cost-weighted sum otherwise; \<open>deckIsValid\<close> is the conjunction of the three.
  The zones, the lock, the lifecycle flags and the hand limit do not enter.
\<close>

theorem composition_validator:
  "baseValid P s = (simpleCounters P \<or> sum_list (map snd (baseCounts s)) = baseTarget P)
   \<and> nullValid P s = (nullCount s \<ge> minNulls P)
   \<and> modValid P s =
        ((simpleCounters P \<and> modCapacityAsCount P) \<or> modCapacityUsed P s \<le> modifierCapacity s)
   \<and> modCapacityUsed P s =
        (if modCapacityAsCount P then sum_list (map snd (modCounts s))
         else getModCapacityUsed (modCards P) (modCounts s))
   \<and> deckIsValid P s = (baseValid P s \<and> nullValid P s \<and> modValid P s)
   \<and> deckIsValid P (s\<lparr> deck := dk, hand := hnd, discard := dc, isLocked := lk,
                         hasBuiltDeck := hb, hasShuffledDeck := hs, handLimit := hl \<rparr>)
        = deckIsValid P s"
  by (simp add: baseValid_def baseTotal_def nullValid_def modValid_def modCapacityUsed_def
      deckIsValid_def sumCounts_sum_list)

subsection \<open>Lock and unlock\<close>

lemma mset_repeatEntries:
  "mset (repeatEntries counts) = (\<Sum>(cardId, qty)\<leftarrow>counts. replicate_mset (nat qty) cardId)"
proof -
  have "mset (concat (map (\<lambda>(cardId, qty). replicate (nat qty) cardId) xs))
      = (\<Sum>(cardId, qty)\<leftarrow>xs. replicate_mset (nat qty) cardId)" for xs :: CountMap
    by (induction xs) auto
  then have "mset (repeatEntries counts)
      = (\<Sum>(cardId, qty)\<leftarrow>objectEntries counts. replicate_mset (nat qty) cardId)"
    by (simp only: repeatEntries_def)
  then show ?thesis
    by (simp only: sum_list_objectEntries)
qed

lemma mset_buildDeckArray: "mset (buildDeckArray P bs) = compositionMset P bs"
  by (simp add: buildDeckArray_def compositionMset_def mset_repeatEntries split: option.split)

lemma toggleLockDeck_lock:
  assumes "\<not> truthy (isLocked (builderState c))"
  shows "toggleLockDeck P rnd c =
     c\<lparr> builderState :=
          (builderState c)\<lparr> isLocked := Some True,
             deck := Some (shuffleInPlace rnd (buildDeckArray P (builderState c))),
             hand := Some [], discard := Some [], hasBuiltDeck := Some True,
             hasShuffledDeck := Some False \<rparr>,
        hookHasBuiltDeck := True, hookHasShuffledDeck := False,
        opsError := Some ''Shuffle the deck before drawing.'',
        deckSeed := deckSeed c + 1 \<rparr>"
  using assms by (simp add: toggleLockDeck_def Let_def)

lemma toggleLockDeck_unlock:
  assumes "truthy (isLocked (builderState c))"
  shows "toggleLockDeck P rnd c =
     c\<lparr> builderState :=
          (builderState c)\<lparr> isLocked := Some False, hasBuiltDeck := Some False,
             hasShuffledDeck := Some False \<rparr>,
        hookHasBuiltDeck := False, hookHasShuffledDeck := False,
        opsError := None,
        deckSeed := deckSeed c + 1 \<rparr>"
  using assms by (simp add: toggleLockDeck_def Let_def)

lemma initial_unlocked: "\<not> truthy (isLocked (builderState (initialComponent exampleProps None)))"
  by code_simp

lemma lockedExample_locked: "truthy (isLocked (builderState lockedExample))"
  by code_simp

lemma playedExample_locked: "truthy (isLocked (builderState playedExample))"
  by code_simp

text \<open>
  Claim C4. \<open>toggleLockDeck\<close> on an unlocked state sets \<open>isLocked\<close>, replaces the deck by a
  permutation of the deck the composition stands for (\<open>buildDeckArray\<close>: each base id
  repeated by its count, each modifier id by its count, the null id \<open>nullCount\<close> times),
  empties the hand and the discard pile, sets built to true and shuffled to false (in the
  state and in the hooks), and sets the notice to shuffle before drawing; the composition
  is left as it is. On a locked state the same call unlocks instead: \<open>isLocked\<close> and the
  flags become false, the notice is cleared, and no deck is built.
\<close>

theorem lock_materializes_deck:
  "(\<not> truthy (isLocked (builderState c)) \<longrightarrow>
      (let c' = toggleLockDeck P rnd c; bs' = builderState c' in
         isLocked bs' = Some True
       \<and> mset (deckOf bs') = compositionMset P (builderState c)
       \<and> mset (deckOf bs') = mset (buildDeckArray P (builderState c))
       \<and> hand bs' = Some [] \<and> discard bs' = Some []
       \<and> hasBuiltDeck bs' = Some True \<and> hasShuffledDeck bs' = Some False
       \<and> hookHasBuiltDeck c' \<and> \<not> hookHasShuffledDeck c'
       \<and> opsError c' = Some ''Shuffle the deck before drawing.''
       \<and> baseCounts bs' = baseCounts (builderState c)
       \<and> modCounts bs' = modCounts (builderState c)
       \<and> nullCount bs' = nullCount (builderState c)))
   \<and> (truthy (isLocked (builderState c)) \<longrightarrow>
      (let c' = toggleLockDeck P rnd c; bs' = builderState c' in
         isLocked bs' = Some False
       \<and> hasBuiltDeck bs' = Some False \<and> hasShuffledDeck bs' = Some False
       \<and> \<not> hookHasBuiltDeck c' \<and> \<not> hookHasShuffledDeck c'
       \<and> opsError c' = None
       \<and> deck bs' = deck (builderState c)))"
  by (simp add: toggleLockDeck_lock toggleLockDeck_unlock Let_def deckOf_def coalesce_def
        shuffleInPlace_perm mset_buildDeckArray)

theorem lock_materializes_deck_witness:
  "\<not> truthy (isLocked (builderState (initialComponent exampleProps None)))
   \<and> isLocked (builderState (toggleLockDeck exampleProps firstIndex (initialComponent exampleProps None)))
       = Some True
   \<and> mset (deckOf (builderState (toggleLockDeck exampleProps firstIndex (initialComponent exampleProps None))))
       = replicate_mset 5 ''N0''
   \<and> truthy (isLocked (builderState lockedExample))
   \<and> isLocked (builderState (toggleLockDeck exampleProps firstIndex lockedExample)) = Some False
   \<and> opsError (toggleLockDeck exampleProps firstIndex lockedExample) = None"
proof -
  have comp: "compositionMset exampleProps (builderState (initialComponent exampleProps None))
              = replicate_mset 5 ''N0''"
    by (simp add: compositionMset_def exampleProps_def initialComponent_def applyInitialCounts_def
        loadState_def defaultState_def buildInitialCounts_def Let_def)
  show ?thesis
    using lock_materializes_deck [of "initialComponent exampleProps None" exampleProps firstIndex]
      lock_materializes_deck [of lockedExample exampleProps firstIndex]
      initial_unlocked lockedExample_locked comp
    by (simp add: Let_def)
qed

text \<open>
  Claim C6, as the code has it. Unlocking a locked deck sets \<open>isLocked\<close> to false and resets
  the built and shuffled flags (in the state and in the hooks) and clears the notice; the
  deck, the hand and the discard pile are left exactly as they were, not cleared.
\<close>

theorem unlock_resets_flags_keeps_zones:
  "truthy (isLocked (builderState c)) \<Longrightarrow>
     (let c' = toggleLockDeck P rnd c; bs' = builderState c' in
        isLocked bs' = Some False
      \<and> hasBuiltDeck bs' = Some False \<and> hasShuffledDeck bs' = Some False
      \<and> \<not> hookHasBuiltDeck c' \<and> \<not> hookHasShuffledDeck c'
      \<and> opsError c' = None
      \<and> deck bs' = deck (builderState c)
      \<and> hand bs' = hand (builderState c)
      \<and> discard bs' = discard (builderState c))"
  by (simp add: toggleLockDeck_unlock Let_def)

theorem unlock_resets_flags_keeps_zones_witness:
  "truthy (isLocked (builderState playedExample))
   \<and> isLocked (builderState (toggleLockDeck exampleProps firstIndex playedExample)) = Some False
   \<and> hasBuiltDeck (builderState (toggleLockDeck exampleProps firstIndex playedExample)) = Some False
   \<and> hasShuffledDeck (builderState (toggleLockDeck exampleProps firstIndex playedExample)) = Some False
   \<and> deck (builderState (toggleLockDeck exampleProps firstIndex playedExample))
       = deck (builderState playedExample)"
  using unlock_resets_flags_keeps_zones [of playedExample exampleProps firstIndex]
    playedExample_locked
  by (simp add: Let_def)

text \<open>
  The claim C6 as it is written fails: in \<open>playedExample\<close> (locked, four cards in the deck,
  one in the hand, one in the discard pile) unlocking leaves all three zones non-empty.
\<close>

theorem unlock_clears_zones_counterexample:
  "truthy (isLocked (builderState playedExample))
   \<and> deck (builderState (toggleLockDeck exampleProps firstIndex playedExample))
       = Some [''N0'', ''N0'', ''N0'', ''N0'']
   \<and> hand (builderState (toggleLockDeck exampleProps firstIndex playedExample))
       = Some [HandEntry ''B1'' Unspent]
   \<and> discard (builderState (toggleLockDeck exampleProps firstIndex playedExample))
       = Some [DiscardEntry ''N0'' OriginDiscarded]"
  by code_simp

text \<open>
  Claim C10. Locking does not consult the validity of the composition. On an unlocked
  state whose composition is not valid, \<open>toggleLockDeck\<close> returns the very state it returns
  for any unlocked state: locked, the deck a permutation of the deck the current counts
  stand for, hand and discard empty, built and not shuffled. The composition is as invalid
  after the lock as before. The next transitions are not gated either: the shuffle goes
  through, and after it \<open>handleDraw\<close> is \<open>draw\<close>.
\<close>

theorem lock_ignores_validity:
  "\<not> truthy (isLocked (builderState c)) \<Longrightarrow> \<not> deckIsValid P (builderState c) \<Longrightarrow>
     (let c' = toggleLockDeck P rnd c; c'' = shuffleDeck confirmed rnd2 c' in
        c' = c\<lparr> builderState :=
                  (builderState c)\<lparr> isLocked := Some True,
                     deck := Some (shuffleInPlace rnd (buildDeckArray P (builderState c))),
                     hand := Some [], discard := Some [], hasBuiltDeck := Some True,
                     hasShuffledDeck := Some False \<rparr>,
                hookHasBuiltDeck := True, hookHasShuffledDeck := False,
                opsError := Some ''Shuffle the deck before drawing.'',
                deckSeed := deckSeed c + 1 \<rparr>
      \<and> isLocked (builderState c') = Some True
      \<and> mset (deckOf (builderState c')) = compositionMset P (builderState c)
      \<and> \<not> deckIsValid P (builderState c')
      \<and> hookHasShuffledDeck c''
      \<and> mset (deckOf (builderState c'')) = compositionMset P (builderState c)
      \<and> handleDraw eager c'' = draw eager c'')"
proof -
  assume u: "\<not> truthy (isLocked (builderState c))" and v: "\<not> deckIsValid P (builderState c)"
  let ?c' = "toggleLockDeck P rnd c"
  let ?c'' = "shuffleDeck confirmed rnd2 ?c'"
  note eq = toggleLockDeck_lock [OF u, of P rnd]
  have d: "mset (deckOf (builderState ?c')) = compositionMset P (builderState c)"
    by (simp add: eq deckOf_def coalesce_def shuffleInPlace_perm mset_buildDeckArray)
  have "deckIsValid P (builderState ?c') = deckIsValid P (builderState c)"
    by (simp add: eq deckIsValid_def baseValid_def baseTotal_def nullValid_def
        modValid_def modCapacityUsed_def)
  with v have inv: "\<not> deckIsValid P (builderState ?c')"
    by blast
  have sh: "hookHasShuffledDeck ?c''"
    by (simp add: eq shuffleDeck_def Let_def)
  have d2: "mset (deckOf (builderState ?c'')) = mset (deckOf (builderState ?c'))"
    by (simp add: shuffleDeck_def Let_def deckOf_def coalesce_def shuffleInPlace_perm)
  have hd: "handleDraw eager ?c'' = draw eager ?c''"
    by (simp add: eq shuffleDeck_def Let_def handleDraw_def needsLock_def needsBuild_def
        needsShuffle_def truthy_def)
  show ?thesis
    unfolding Let_def using eq d inv sh d2 hd by simp
qed

theorem lock_ignores_validity_witness:
  "\<not> truthy (isLocked (builderState (initialComponent exampleProps None)))
   \<and> \<not> deckIsValid exampleProps (builderState (initialComponent exampleProps None))
   \<and> isLocked (builderState (toggleLockDeck exampleProps firstIndex (initialComponent exampleProps None)))
       = Some True
   \<and> hookHasShuffledDeck
       (shuffleDeck False firstIndex (toggleLockDeck exampleProps firstIndex (initialComponent exampleProps None)))"
proof -
  have v: "\<not> deckIsValid exampleProps (builderState (initialComponent exampleProps None))"
    by code_simp
  note t = lock_ignores_validity [OF initial_unlocked v, of firstIndex False firstIndex,
      unfolded Let_def]
  from t have a: "isLocked (builderState (toggleLockDeck exampleProps firstIndex
      (initialComponent exampleProps None))) = Some True"
    by blast
  from t have b: "hookHasShuffledDeck (shuffleDeck False firstIndex
      (toggleLockDeck exampleProps firstIndex (initialComponent exampleProps None)))"
    by blast
  from initial_unlocked v a b show ?thesis
    by blast
qed

subsection \<open>Drawing\<close>

lemma draw_state: "builderState (draw eager c) = fst (drawUpdate (builderState c))"
  by (simp add: draw_def Let_def split: prod.split)

lemma draw_not_locked:
  "\<not> truthy (isLocked (builderState c)) \<Longrightarrow> draw eager c = c"
  by (simp add: draw_def drawUpdate_def)

lemma draw_hand_full:
  "int (length (handOf (builderState c))) \<ge> handLimitOf (builderState c) \<Longrightarrow> draw eager c = c"
  by (simp add: draw_def drawUpdate_def)

lemma draw_depleted:
  assumes "truthy (isLocked (builderState c))"
    and "int (length (handOf (builderState c))) < handLimitOf (builderState c)"
    and "deckOf (builderState c) = [] \<or> last (deckOf (builderState c)) = []"
  shows "draw eager c =
     (if eager then c\<lparr> opsError := Some ''Deck depleted. Refill or rebuild to continue drawing.'' \<rparr>
      else c)"
  using assms by (auto simp add: draw_def drawUpdate_def Let_def)

lemma draw_pops:
  assumes "truthy (isLocked (builderState c))"
    and "int (length (handOf (builderState c))) < handLimitOf (builderState c)"
    and "deckOf (builderState c) \<noteq> []" and "last (deckOf (builderState c)) \<noteq> []"
  shows "draw eager c =
     (if eager
      then c\<lparr> builderState :=
               (builderState c)\<lparr> deck := Some (butlast (deckOf (builderState c))),
                  hand := Some (handOf (builderState c)
                                @ [HandEntry (last (deckOf (builderState c))) Unspent]),
                  discard := Some (discardOf (builderState c)) \<rparr>,
             deckSeed := deckSeed c + 1,
             opsError := None \<rparr>
      else c\<lparr> builderState :=
               (builderState c)\<lparr> deck := Some (butlast (deckOf (builderState c))),
                  hand := Some (handOf (builderState c)
                                @ [HandEntry (last (deckOf (builderState c))) Unspent]),
                  discard := Some (discardOf (builderState c)) \<rparr> \<rparr>)"
  using assms by (simp add: draw_def drawUpdate_def Let_def)

lemma readyExample_state:
  "truthy (isLocked (builderState readyExample)) \<and> hookHasBuiltDeck readyExample
   \<and> hookHasShuffledDeck readyExample
   \<and> int (length (handOf (builderState readyExample))) < handLimitOf (builderState readyExample)
   \<and> deckOf (builderState readyExample) = [''N0'', ''N0'', ''N0'', ''N0'', ''B1'', ''N0'']
   \<and> handOf (builderState readyExample) = []"
  by code_simp

lemma lockedExample_flags:
  "hookHasBuiltDeck lockedExample \<and> \<not> hookHasShuffledDeck lockedExample"
  by code_simp

lemma emptyDeckExample_state:
  "truthy (isLocked (builderState emptyDeckExample)) \<and> hookHasBuiltDeck emptyDeckExample
   \<and> hookHasShuffledDeck emptyDeckExample
   \<and> deckOf (builderState emptyDeckExample) = []
   \<and> int (length (handOf (builderState emptyDeckExample))) = 4
   \<and> handLimitOf (builderState emptyDeckExample) = 5
   \<and> discardOf (builderState emptyDeckExample) = [DiscardEntry ''N0'' OriginDiscarded]
   \<and> opsError emptyDeckExample = None"
  by code_simp

text \<open>
  Claim C5. \<open>handleDraw\<close> checks lock, then build, then shuffle. A deck that is not locked
  gets the lock message whatever the other two flags are; a locked deck that is not built
  gets the build message whatever the shuffle flag is; a locked and built deck that is not
  shuffled gets the shuffle message. The three messages differ, and a rejected draw changes
  nothing but the message: the builder state with its zones is the one before. Only when
  all three hold is \<open>draw\<close> called. The builder state \<open>draw\<close> leaves is the result of its
  updater whether or not the updater has run when \<open>draw\<close> tests \<open>drewCard\<close> and \<open>depleted\<close>:
  with room in the hand the last element of a non-empty deck is popped and appended to the
  hand as unspent, and with the hand at its limit nothing changes. What depends on the
  updater having run is the rest: only then does a successful draw add one to \<open>deckSeed\<close>
  and clear the notice, and only then is an empty deck (or a falsy top id) reported as
  depleted. When it has not run, a draw from an empty deck returns the component as it
  was, with no report: so it is at \<open>emptyDeckExample\<close> (five cards locked and shuffled, all
  five drawn, one discarded from the hand) for a press of the Draw button.
\<close>

theorem handleDraw_preconditions:
  "(\<not> truthy (isLocked (builderState c)) \<longrightarrow>
      handleDraw eager c = c\<lparr> opsError := Some ''Lock the deck before drawing.'' \<rparr>)
   \<and> (truthy (isLocked (builderState c)) \<and> \<not> hookHasBuiltDeck c \<longrightarrow>
      handleDraw eager c = c\<lparr> opsError := Some ''Build the deck before drawing.'' \<rparr>)
   \<and> (truthy (isLocked (builderState c)) \<and> hookHasBuiltDeck c \<and> \<not> hookHasShuffledDeck c \<longrightarrow>
      handleDraw eager c = c\<lparr> opsError := Some ''Shuffle the deck before drawing.'' \<rparr>)
   \<and> (truthy (isLocked (builderState c)) \<and> hookHasBuiltDeck c \<and> hookHasShuffledDeck c \<longrightarrow>
      handleDraw eager c = draw eager c)
   \<and> ''Lock the deck before drawing.'' \<noteq> ''Build the deck before drawing.''
   \<and> ''Lock the deck before drawing.'' \<noteq> ''Shuffle the deck before drawing.''
   \<and> ''Build the deck before drawing.'' \<noteq> ''Shuffle the deck before drawing.''
   \<and> builderState (c\<lparr> opsError := msg \<rparr>) = builderState c
   \<and> builderState (draw True c) = builderState (draw False c)
   \<and> (truthy (isLocked (builderState c))
       \<and> int (length (handOf (builderState c))) < handLimitOf (builderState c)
       \<and> deckOf (builderState c) \<noteq> [] \<and> last (deckOf (builderState c)) \<noteq> [] \<longrightarrow>
        builderState (draw eager c) =
          (builderState c)\<lparr> deck := Some (butlast (deckOf (builderState c))),
             hand := Some (handOf (builderState c)
                           @ [HandEntry (last (deckOf (builderState c))) Unspent]),
             discard := Some (discardOf (builderState c)) \<rparr>
      \<and> draw True c = (draw False c)\<lparr> deckSeed := deckSeed c + 1, opsError := None \<rparr>
      \<and> deckSeed (draw False c) = deckSeed c \<and> opsError (draw False c) = opsError c)
   \<and> (truthy (isLocked (builderState c))
       \<and> int (length (handOf (builderState c))) < handLimitOf (builderState c)
       \<and> (deckOf (builderState c) = [] \<or> last (deckOf (builderState c)) = []) \<longrightarrow>
        draw True c = c\<lparr> opsError := Some ''Deck depleted. Refill or rebuild to continue drawing.'' \<rparr>
      \<and> draw False c = c)
   \<and> (int (length (handOf (builderState c))) \<ge> handLimitOf (builderState c) \<longrightarrow> draw eager c = c)
   \<and> deckOf (builderState emptyDeckExample) = []
   \<and> opsError emptyDeckExample = None
   \<and> pressDraw False emptyDeckExample = emptyDeckExample
   \<and> opsError (pressDraw True emptyDeckExample)
        = Some ''Deck depleted. Refill or rebuild to continue drawing.''"
proof -
  have c1: "\<not> truthy (isLocked (builderState c)) \<longrightarrow>
      handleDraw eager c = c\<lparr> opsError := Some ''Lock the deck before drawing.'' \<rparr>"
    by (simp add: handleDraw_def needsLock_def)
  have c2: "truthy (isLocked (builderState c)) \<and> \<not> hookHasBuiltDeck c \<longrightarrow>
      handleDraw eager c = c\<lparr> opsError := Some ''Build the deck before drawing.'' \<rparr>"
    by (simp add: handleDraw_def needsLock_def needsBuild_def)
  have c3: "truthy (isLocked (builderState c)) \<and> hookHasBuiltDeck c \<and> \<not> hookHasShuffledDeck c \<longrightarrow>
      handleDraw eager c = c\<lparr> opsError := Some ''Shuffle the deck before drawing.'' \<rparr>"
    by (simp add: handleDraw_def needsLock_def needsBuild_def needsShuffle_def)
  have c4: "truthy (isLocked (builderState c)) \<and> hookHasBuiltDeck c \<and> hookHasShuffledDeck c \<longrightarrow>
      handleDraw eager c = draw eager c"
    by (simp add: handleDraw_def needsLock_def needsBuild_def needsShuffle_def)
  have m1: "''Lock the deck before drawing.'' \<noteq> ''Build the deck before drawing.''"
    by simp
  have m2: "''Lock the deck before drawing.'' \<noteq> ''Shuffle the deck before drawing.''"
    by simp
  have m3: "''Build the deck before drawing.'' \<noteq> ''Shuffle the deck before drawing.''"
    by simp
  have frame: "builderState (c\<lparr> opsError := msg \<rparr>) = builderState c"
    by simp
  have same: "builderState (draw True c) = builderState (draw False c)"
    by (simp add: draw_state)
  have d1: "truthy (isLocked (builderState c))
       \<and> int (length (handOf (builderState c))) < handLimitOf (builderState c)
       \<and> deckOf (builderState c) \<noteq> [] \<and> last (deckOf (builderState c)) \<noteq> [] \<longrightarrow>
        builderState (draw eager c) =
          (builderState c)\<lparr> deck := Some (butlast (deckOf (builderState c))),
             hand := Some (handOf (builderState c)
                           @ [HandEntry (last (deckOf (builderState c))) Unspent]),
             discard := Some (discardOf (builderState c)) \<rparr>
      \<and> draw True c = (draw False c)\<lparr> deckSeed := deckSeed c + 1, opsError := None \<rparr>
      \<and> deckSeed (draw False c) = deckSeed c \<and> opsError (draw False c) = opsError c"
    by (simp add: draw_pops)
  have d2: "truthy (isLocked (builderState c))
       \<and> int (length (handOf (builderState c))) < handLimitOf (builderState c)
       \<and> (deckOf (builderState c) = [] \<or> last (deckOf (builderState c)) = []) \<longrightarrow>
        draw True c = c\<lparr> opsError := Some ''Deck depleted. Refill or rebuild to continue drawing.'' \<rparr>
      \<and> draw False c = c"
    by (simp add: draw_depleted)
  have d3: "int (length (handOf (builderState c))) \<ge> handLimitOf (builderState c) \<longrightarrow> draw eager c = c"
    by (intro impI, rule draw_hand_full)
  have e1: "deckOf (builderState emptyDeckExample) = []"
    using emptyDeckExample_state by blast
  have e2: "opsError emptyDeckExample = None"
    using emptyDeckExample_state by blast
  have room: "\<not> int (length (handOf (builderState emptyDeckExample)))
                 \<ge> handLimitOf (builderState emptyDeckExample)"
    using emptyDeckExample_state by simp
  have hd: "handleDraw b emptyDeckExample = draw b emptyDeckExample" for b
    using emptyDeckExample_state
    by (simp add: handleDraw_def needsLock_def needsBuild_def needsShuffle_def)
  have dr: "draw b emptyDeckExample =
     (if b then emptyDeckExample\<lparr> opsError := Some ''Deck depleted. Refill or rebuild to continue drawing.'' \<rparr>
      else emptyDeckExample)" for b
    using emptyDeckExample_state by (intro draw_depleted) simp_all
  have e3: "pressDraw False emptyDeckExample = emptyDeckExample"
    using room by (simp add: pressDraw_def hd dr)
  have e4: "opsError (pressDraw True emptyDeckExample)
        = Some ''Deck depleted. Refill or rebuild to continue drawing.''"
    using room by (simp add: pressDraw_def hd dr)
  show ?thesis
    by (intro conjI; fact)
qed

theorem handleDraw_preconditions_witness:
  "\<not> truthy (isLocked (builderState (initialComponent exampleProps None)))
   \<and> handleDraw False (initialComponent exampleProps None)
       = (initialComponent exampleProps None)\<lparr> opsError := Some ''Lock the deck before drawing.'' \<rparr>
   \<and> truthy (isLocked (builderState lockedExample)) \<and> hookHasBuiltDeck lockedExample
   \<and> \<not> hookHasShuffledDeck lockedExample
   \<and> handleDraw False lockedExample
       = lockedExample\<lparr> opsError := Some ''Shuffle the deck before drawing.'' \<rparr>
   \<and> truthy (isLocked (builderState (lockedExample\<lparr> hookHasBuiltDeck := False \<rparr>)))
   \<and> handleDraw False (lockedExample\<lparr> hookHasBuiltDeck := False \<rparr>)
       = lockedExample\<lparr> hookHasBuiltDeck := False,
                          opsError := Some ''Build the deck before drawing.'' \<rparr>
   \<and> truthy (isLocked (builderState readyExample)) \<and> hookHasBuiltDeck readyExample
   \<and> hookHasShuffledDeck readyExample
   \<and> handleDraw False readyExample = draw False readyExample
   \<and> deck (builderState (draw False readyExample)) = Some [''N0'', ''N0'', ''N0'', ''N0'', ''B1'']
   \<and> hand (builderState (draw False readyExample)) = Some [HandEntry ''N0'' Unspent]
   \<and> deckSeed (draw False readyExample) = deckSeed readyExample
   \<and> truthy (isLocked (builderState emptyDeckExample))
   \<and> int (length (handOf (builderState emptyDeckExample))) < handLimitOf (builderState emptyDeckExample)
   \<and> deckOf (builderState emptyDeckExample) = []
   \<and> draw False emptyDeckExample = emptyDeckExample
   \<and> draw True emptyDeckExample
       = emptyDeckExample\<lparr> opsError := Some ''Deck depleted. Refill or rebuild to continue drawing.'' \<rparr>
   \<and> int (length (handOf (builderState fullHandExample))) \<ge> handLimitOf (builderState fullHandExample)
   \<and> draw False fullHandExample = fullHandExample"
proof -
  note t4 = handleDraw_preconditions [of emptyDeckExample False]
  note t5 = handleDraw_preconditions [of fullHandExample False]
  have dep: "truthy (isLocked (builderState emptyDeckExample))
   \<and> int (length (handOf (builderState emptyDeckExample))) < handLimitOf (builderState emptyDeckExample)
   \<and> deckOf (builderState emptyDeckExample) = []"
    using emptyDeckExample_state by simp
  have f: "draw False emptyDeckExample = emptyDeckExample
     \<and> draw True emptyDeckExample
       = emptyDeckExample\<lparr> opsError := Some ''Deck depleted. Refill or rebuild to continue drawing.'' \<rparr>"
    using t4 dep by simp
  have full: "int (length (handOf (builderState fullHandExample))) \<ge> handLimitOf (builderState fullHandExample)"
    by code_simp
  have g: "draw False fullHandExample = fullHandExample"
    using t5 full by simp
  note t0 = handleDraw_preconditions [of "initialComponent exampleProps None" False]
  note t1 = handleDraw_preconditions [of lockedExample False]
  note t2 = handleDraw_preconditions [of "lockedExample\<lparr> hookHasBuiltDeck := False \<rparr>" False]
  note t3 = handleDraw_preconditions [of readyExample False]
  have a: "handleDraw False (initialComponent exampleProps None)
       = (initialComponent exampleProps None)\<lparr> opsError := Some ''Lock the deck before drawing.'' \<rparr>"
    using t0 initial_unlocked by blast
  have b: "handleDraw False lockedExample
       = lockedExample\<lparr> opsError := Some ''Shuffle the deck before drawing.'' \<rparr>"
    using t1 lockedExample_locked lockedExample_flags by blast
  have l2: "truthy (isLocked (builderState (lockedExample\<lparr> hookHasBuiltDeck := False \<rparr>)))"
    using lockedExample_locked by simp
  have "handleDraw False (lockedExample\<lparr> hookHasBuiltDeck := False \<rparr>)
       = lockedExample\<lparr> hookHasBuiltDeck := False \<rparr>
           \<lparr> opsError := Some ''Build the deck before drawing.'' \<rparr>"
    using t2 l2 by simp
  then have c: "handleDraw False (lockedExample\<lparr> hookHasBuiltDeck := False \<rparr>)
       = lockedExample\<lparr> hookHasBuiltDeck := False,
                          opsError := Some ''Build the deck before drawing.'' \<rparr>"
    by simp
  have d: "handleDraw False readyExample = draw False readyExample"
    using t3 readyExample_state by blast
  have "builderState (draw False readyExample) =
          (builderState readyExample)\<lparr> deck := Some (butlast (deckOf (builderState readyExample))),
             hand := Some (handOf (builderState readyExample)
                           @ [HandEntry (last (deckOf (builderState readyExample))) Unspent]),
             discard := Some (discardOf (builderState readyExample)) \<rparr>
        \<and> deckSeed (draw False readyExample) = deckSeed readyExample"
    using t3 readyExample_state by simp
  then have e: "deck (builderState (draw False readyExample)) = Some [''N0'', ''N0'', ''N0'', ''N0'', ''B1'']
      \<and> hand (builderState (draw False readyExample)) = Some [HandEntry ''N0'' Unspent]
      \<and> deckSeed (draw False readyExample) = deckSeed readyExample"
    using readyExample_state by simp
  show ?thesis
    using initial_unlocked lockedExample_locked lockedExample_flags l2 readyExample_state a b c d e
      dep f full g
    by blast
qed

subsection \<open>Adjusting counts while locked\<close>

lemma adjustModCount_locked:
  "truthy (isLocked (builderState c)) \<Longrightarrow> adjustModCount P cardId delta c = c"
  by (simp add: adjustModCount_def adjustModCountUpdate_def)

lemma press_locked: "truthy (isLocked (builderState c)) \<Longrightarrow> press P ctl c = c"
  by (cases ctl) (simp_all add: press_def handleBaseIncrement_def handleModIncrement_def)

text \<open>
  The updaters of \<open>adjustBaseCount\<close> and \<open>adjustNullCount\<close> do not test \<open>isLocked\<close>
  themselves (the updater of \<open>adjustModCount\<close> does): applied to the locked
  \<open>lockedExample\<close>, which no call site does, they would change the counts. What blocks
  them while the deck is locked is their call sites.
\<close>

lemma updaters_at_a_locked_state:
  "truthy (isLocked (builderState lockedExample))
   \<and> nullCount (builderState lockedExample) = 5
   \<and> nullCount (adjustNullCountUpdate exampleProps 1 (builderState lockedExample)) = 6
   \<and> baseCounts (builderState lockedExample) = [(''B1'', 1)]
   \<and> baseCounts (adjustBaseCountUpdate exampleProps ''B1'' 1 (builderState lockedExample))
       = [(''B1'', 2)]
   \<and> adjustModCountUpdate exampleProps ''M1'' 1 (builderState lockedExample)
       = builderState lockedExample"
  by code_simp

text \<open>
  Claim C9. While the deck is locked, no count adjustment goes through. The three
  functions are closures of the component, and the controls are their whole command
  surface: the - and + buttons of the base, modifier and null counters, the tap on a base
  or modifier card, and the Remove 1 and Remove All buttons of the two remove dialogs.
  With \<open>isLocked\<close> set each button is disabled, and the tap handlers
  \<open>handleBaseIncrement\<close> and \<open>handleModIncrement\<close> return before calling anything; so a
  press of any of the controls leaves the whole component state, the builder state in it,
  as it was. \<open>adjustModCount\<close> moreover returns the locked state unchanged by itself.
  While the deck is not locked the same controls do call the three functions.
\<close>

theorem count_adjustments_blocked_while_locked:
  "(truthy (isLocked (builderState c)) \<longrightarrow>
       press P ctl c = c
     \<and> builderState (press P ctl c) = builderState c
     \<and> handleBaseIncrement P cardId c = c
     \<and> handleModIncrement P cardId c = c
     \<and> adjustModCount P cardId delta c = c)
   \<and> (\<not> truthy (isLocked (builderState c)) \<longrightarrow>
       press P (BaseCardTap cardId) c = adjustBaseCount P cardId 1 c
     \<and> press P (ModCardTap cardId) c = adjustModCount P cardId 1 c
     \<and> press P NullPlusButton c = adjustNullCount P 1 c
     \<and> (minNulls P < nullCount (builderState c) \<longrightarrow>
          press P NullMinusButton c = adjustNullCount P (- 1) c))"
proof (intro conjI impI)
  assume l: "truthy (isLocked (builderState c))"
  show "press P ctl c = c"
    using l by (rule press_locked)
  then show "builderState (press P ctl c) = builderState c"
    by simp
  show "handleBaseIncrement P cardId c = c"
    using l by (simp add: handleBaseIncrement_def)
  show "handleModIncrement P cardId c = c"
    using l by (simp add: handleModIncrement_def)
  show "adjustModCount P cardId delta c = c"
    using l by (rule adjustModCount_locked)
next
  assume u: "\<not> truthy (isLocked (builderState c))"
  show "press P (BaseCardTap cardId) c = adjustBaseCount P cardId 1 c"
    using u by (simp add: press_def handleBaseIncrement_def)
  show "press P (ModCardTap cardId) c = adjustModCount P cardId 1 c"
    using u by (simp add: press_def handleModIncrement_def)
  show "press P NullPlusButton c = adjustNullCount P 1 c"
    using u by (simp add: press_def)
  assume "minNulls P < nullCount (builderState c)"
  with u show "press P NullMinusButton c = adjustNullCount P (- 1) c"
    by (simp add: press_def)
qed

theorem count_adjustments_blocked_while_locked_witness:
  "truthy (isLocked (builderState lockedExample))
   \<and> press exampleProps NullPlusButton lockedExample = lockedExample
   \<and> press exampleProps BaseMinusButton lockedExample = lockedExample
   \<and> press exampleProps (BaseCardTap ''B1'') lockedExample = lockedExample
   \<and> press exampleProps (ModCardTap ''M1'') lockedExample = lockedExample
   \<and> adjustModCount exampleProps ''M1'' 1 lockedExample = lockedExample
   \<and> nullCount (builderState lockedExample) = 5
   \<and> baseCounts (builderState lockedExample) = [(''B1'', 1)]
   \<and> \<not> truthy (isLocked (builderState (initialComponent exampleProps None)))
   \<and> nullCount (builderState (press exampleProps NullPlusButton (initialComponent exampleProps None))) = 6
   \<and> baseCounts (builderState
        (press exampleProps (BaseCardTap ''B1'') (initialComponent exampleProps None)))
       = [(''B1'', 1)]
   \<and> modCounts (builderState
        (press exampleProps (ModCardTap ''M1'') (initialComponent exampleProps None)))
       = [(''M1'', 1)]"
proof -
  note l1 = count_adjustments_blocked_while_locked [of lockedExample exampleProps NullPlusButton "''M1''" 1]
  note l2 = count_adjustments_blocked_while_locked [of lockedExample exampleProps BaseMinusButton]
  note l3 = count_adjustments_blocked_while_locked [of lockedExample exampleProps "BaseCardTap ''B1''"]
  note l4 = count_adjustments_blocked_while_locked [of lockedExample exampleProps "ModCardTap ''M1''"]
  note u1 = count_adjustments_blocked_while_locked
    [of "initialComponent exampleProps None" exampleProps _ "''B1''"]
  note u2 = count_adjustments_blocked_while_locked
    [of "initialComponent exampleProps None" exampleProps _ "''M1''"]
  have a: "press exampleProps NullPlusButton lockedExample = lockedExample"
    using l1 lockedExample_locked by blast
  have b: "press exampleProps BaseMinusButton lockedExample = lockedExample"
    using l2 lockedExample_locked by blast
  have c: "press exampleProps (BaseCardTap ''B1'') lockedExample = lockedExample"
    using l3 lockedExample_locked by blast
  have d: "press exampleProps (ModCardTap ''M1'') lockedExample = lockedExample"
    using l4 lockedExample_locked by blast
  have e: "adjustModCount exampleProps ''M1'' 1 lockedExample = lockedExample"
    using l1 lockedExample_locked by blast
  have f: "nullCount (builderState lockedExample) = 5
      \<and> baseCounts (builderState lockedExample) = [(''B1'', 1)]"
    using updaters_at_a_locked_state by blast
  have n: "press exampleProps NullPlusButton (initialComponent exampleProps None)
      = adjustNullCount exampleProps 1 (initialComponent exampleProps None)"
    using u1 initial_unlocked by blast
  have "nullCount (builderState (adjustNullCount exampleProps 1 (initialComponent exampleProps None))) = 6"
    by code_simp
  with n have g: "nullCount (builderState
      (press exampleProps NullPlusButton (initialComponent exampleProps None))) = 6"
    by simp
  have bt: "press exampleProps (BaseCardTap ''B1'') (initialComponent exampleProps None)
      = adjustBaseCount exampleProps ''B1'' 1 (initialComponent exampleProps None)"
    using u1 initial_unlocked by blast
  have "baseCounts (builderState
      (adjustBaseCount exampleProps ''B1'' 1 (initialComponent exampleProps None))) = [(''B1'', 1)]"
    by code_simp
  with bt have h: "baseCounts (builderState
        (press exampleProps (BaseCardTap ''B1'') (initialComponent exampleProps None)))
       = [(''B1'', 1)]"
    by simp
  have mt: "press exampleProps (ModCardTap ''M1'') (initialComponent exampleProps None)
      = adjustModCount exampleProps ''M1'' 1 (initialComponent exampleProps None)"
    using u2 initial_unlocked by blast
  have "modCounts (builderState
      (adjustModCount exampleProps ''M1'' 1 (initialComponent exampleProps None))) = [(''M1'', 1)]"
    by code_simp
  with mt have i: "modCounts (builderState
        (press exampleProps (ModCardTap ''M1'') (initialComponent exampleProps None)))
       = [(''M1'', 1)]"
    by simp
  from lockedExample_locked a b c d e f initial_unlocked g h i show ?thesis
    by blast
qed

subsection \<open>Array helpers\<close>

lemma splice1_mset: "i < length xs \<Longrightarrow> add_mset (xs ! i) (mset (splice1 i xs)) = mset xs"
proof -
  assume "i < length xs"
  then have "xs = take i xs @ xs ! i # drop (Suc i) xs"
    by (rule id_take_nth_drop)
  then have "mset xs = mset (take i xs @ xs ! i # drop (Suc i) xs)"
    by (rule arg_cong)
  then show ?thesis
    by (simp add: splice1_def)
qed

lemma splice1_length: "i < length xs \<Longrightarrow> Suc (length (splice1 i xs)) = length xs"
  by (simp add: splice1_def)


lemma findIndex_ge: "findIndex p xs \<ge> - 1"
  by (induction xs) (auto simp: Let_def)

lemma findIndex_none: "(findIndex p xs = - 1) = (\<forall>x\<in>set xs. \<not> p x)"
proof (induction xs)
  case Nil
  show ?case by simp
next
  case (Cons x xs)
  show ?case
    using Cons.IH findIndex_ge [of p xs] by (auto simp: Let_def)
qed

lemma findIndex_found:
  "findIndex p xs \<noteq> - 1 \<Longrightarrow> nat (findIndex p xs) < length xs \<and> p (xs ! nat (findIndex p xs))"
proof (induction xs)
  case Nil
  then show ?case by simp
next
  case (Cons x xs)
  show ?case
  proof (cases "p x")
    case True
    then show ?thesis by simp
  next
    case False
    with Cons.prems have r: "findIndex p xs \<noteq> - 1"
      by (auto simp: Let_def split: if_splits)
    with findIndex_ge [of p xs] have "findIndex p xs \<ge> 0"
      by linarith
    then have "nat (findIndex p xs + 1) = Suc (nat (findIndex p xs))"
      by simp
    with Cons.IH [OF r] False r show ?thesis
      by (simp add: Let_def)
  qed
qed

subsection \<open>The loops of the zone commands\<close>



lemma toHandLoop_length:
  "toHandLoop n cardId all space dc moved = (dc', moved') \<Longrightarrow> length moved \<le> space \<Longrightarrow>
     length moved' \<le> space"
proof (induction n arbitrary: dc moved)
  case 0
  then show ?case by simp
next
  case (Suc i)
  show ?case
  proof (cases "length moved < space")
    case True
    note room = this
    show ?thesis
    proof (cases "d_id (dc ! i) = cardId")
      case True
      note hit = this
      show ?thesis
      proof (cases all)
        case True
        with room hit Suc.prems(1)
        have "toHandLoop i cardId all space (splice1 i dc) (moved @ [dc ! i]) = (dc', moved')"
          by simp
        moreover have "length (moved @ [dc ! i]) \<le> space" using room by simp
        ultimately show ?thesis by (rule Suc.IH)
      next
        case False
        with room hit Suc.prems(1) have "moved' = moved @ [dc ! i]" by simp
        with room show ?thesis by simp
      qed
    next
      case False
      with room Suc.prems(1) have "toHandLoop i cardId all space dc moved = (dc', moved')"
        by simp
      then show ?thesis using Suc.prems(2) by (rule Suc.IH)
    qed
  next
    case False
    with Suc.prems show ?thesis by simp
  qed
qed

lemma fromHandLoop_mset:
  "n \<le> length hnd \<Longrightarrow> fromHandLoop n cardId hnd removed = (hnd', removed') \<Longrightarrow>
     mset hnd' + mset removed' = mset hnd + mset removed \<and> length hnd' \<le> length hnd"
proof (induction n arbitrary: hnd removed)
  case 0
  then show ?case by simp
next
  case (Suc i)
  from Suc.prems(1) have i: "i < length hnd" by simp
  show ?case
  proof (cases "h_id (hnd ! i) = cardId")
    case True
    have sp: "add_mset (hnd ! i) (mset (splice1 i hnd)) = mset hnd"
      using i by (rule splice1_mset)
    have len: "i \<le> length (splice1 i hnd)"
      using splice1_length [OF i] i by linarith
    from True Suc.prems(2)
    have "fromHandLoop i cardId (splice1 i hnd) (removed @ [hnd ! i]) = (hnd', removed')"
      by simp
    from Suc.IH [OF len this]
    have a: "mset hnd' + mset removed' = mset (splice1 i hnd) + mset (removed @ [hnd ! i])"
      and b: "length hnd' \<le> length (splice1 i hnd)"
      by simp_all
    from a sp have "mset hnd' + mset removed' = mset hnd + mset removed"
      by (metis add_mset_add_single mset_append mset.simps(1,2) union_mset_add_mset_left
          union_mset_add_mset_right)
    moreover from b splice1_length [OF i] have "length hnd' \<le> length hnd"
      by linarith
    ultimately show ?thesis by simp
  next
    case False
    with Suc.prems(2) have "fromHandLoop i cardId hnd removed = (hnd', removed')"
      by simp
    moreover have "i \<le> length hnd" using i by simp
    ultimately show ?thesis by (rule Suc.IH [rotated])
  qed
qed

subsection \<open>Conservation of the cards in the zones\<close>

lemma zone_field_simps:
  "deckOf (s\<lparr> deck := Some dk \<rparr>) = dk"
  "deckOf (s\<lparr> hand := h \<rparr>) = deckOf s"
  "deckOf (s\<lparr> discard := d \<rparr>) = deckOf s"
  "handOf (s\<lparr> hand := Some hnd \<rparr>) = hnd"
  "handOf (s\<lparr> deck := k \<rparr>) = handOf s"
  "handOf (s\<lparr> discard := d \<rparr>) = handOf s"
  "discardOf (s\<lparr> discard := Some dc \<rparr>) = dc"
  "discardOf (s\<lparr> deck := k \<rparr>) = discardOf s"
  "discardOf (s\<lparr> hand := h \<rparr>) = discardOf s"
  "handLimitOf (s\<lparr> deck := k \<rparr>) = handLimitOf s"
  "handLimitOf (s\<lparr> hand := h \<rparr>) = handLimitOf s"
  "handLimitOf (s\<lparr> discard := d \<rparr>) = handLimitOf s"
  by (simp_all add: deckOf_def handOf_def discardOf_def handLimitOf_def coalesce_def)








lemma returnDiscardGroupToHandUpdate_eq:
  assumes "toHandLoop (length (discardOf prev)) cardId all
      (nat (max 0 (handLimitOf prev - int (length (handOf prev))))) (discardOf prev) [] = (dc, moved)"
  shows "returnDiscardGroupToHandUpdate cardId all prev =
     (if handLimitOf prev - int (length (handOf prev)) \<le> 0 \<or> moved = [] then prev
      else prev\<lparr> discard := Some dc,
                 hand := Some (handOf prev @ map (\<lambda>m. HandEntry (d_id m) Unspent) moved) \<rparr>)"
  unfolding returnDiscardGroupToHandUpdate_def Let_def assms
  by (auto simp add: max_def)


lemma discardGroupFromHand_removed:
  assumes "(if all then fromHandLoop (length hnd0) cardId hnd0 []
            else
              let idx = findIndex (\<lambda>h. h_id h = cardId) hnd0
              in if idx \<ge> 0 then (splice1 (nat idx) hnd0, [hnd0 ! nat idx])
                 else (hnd0, [])) = (hnd, removed)"
  shows "mset hnd + mset removed = mset hnd0 \<and> length hnd \<le> length hnd0"
proof (cases all)
  case True
  with assms have "fromHandLoop (length hnd0) cardId hnd0 [] = (hnd, removed)"
    by simp
  from fromHandLoop_mset [OF _ this] show ?thesis by simp
next
  case False
  show ?thesis
  proof (cases "findIndex (\<lambda>h. h_id h = cardId) hnd0 \<ge> 0")
    case True
    then have "findIndex (\<lambda>h. h_id h = cardId) hnd0 \<noteq> - 1" by simp
    from findIndex_found [OF this]
    have i: "nat (findIndex (\<lambda>h. h_id h = cardId) hnd0) < length hnd0" by simp
    from assms False True
    have "hnd = splice1 (nat (findIndex (\<lambda>h. h_id h = cardId) hnd0)) hnd0"
      and "removed = [hnd0 ! nat (findIndex (\<lambda>h. h_id h = cardId) hnd0)]"
      by (simp_all add: Let_def)
    with splice1_mset [OF i] splice1_length [OF i] show ?thesis
      by simp
  next
    case nf: False
    with assms False show ?thesis
      by (simp add: Let_def)
  qed
qed

lemma discardGroupFromHandUpdate_eq:
  assumes "(if all then fromHandLoop (length (handOf prev)) cardId (handOf prev) []
      else
        let idx = findIndex (\<lambda>h. h_id h = cardId) (handOf prev)
        in if idx \<ge> 0 then (splice1 (nat idx) (handOf prev), [handOf prev ! nat idx])
           else (handOf prev, [])) = (hnd, removed)"
  shows "discardGroupFromHandUpdate cardId all origin prev =
     (if removed = [] then prev
      else prev\<lparr> hand := Some hnd,
                 discard := Some (discardOf prev @ map (\<lambda>r. DiscardEntry (h_id r) origin) removed) \<rparr>)"
  unfolding discardGroupFromHandUpdate_def assms
  by simp








subsection \<open>The hand limit\<close>

lemma hand_other_fields:
  "handOf (s\<lparr> baseCounts := bc \<rparr>) = handOf s"
  "handOf (s\<lparr> modCounts := mc \<rparr>) = handOf s"
  "handOf (s\<lparr> nullCount := nc \<rparr>) = handOf s"
  "handOf (s\<lparr> isLocked := lk \<rparr>) = handOf s"
  "handOf (s\<lparr> hasBuiltDeck := hb \<rparr>) = handOf s"
  "handOf (s\<lparr> hasShuffledDeck := hs \<rparr>) = handOf s"
  "handLimitOf (s\<lparr> baseCounts := bc \<rparr>) = handLimitOf s"
  "handLimitOf (s\<lparr> modCounts := mc \<rparr>) = handLimitOf s"
  "handLimitOf (s\<lparr> nullCount := nc \<rparr>) = handLimitOf s"
  "handLimitOf (s\<lparr> isLocked := lk \<rparr>) = handLimitOf s"
  "handLimitOf (s\<lparr> hasBuiltDeck := hb \<rparr>) = handLimitOf s"
  "handLimitOf (s\<lparr> hasShuffledDeck := hs \<rparr>) = handLimitOf s"
  by (simp_all add: handOf_def handLimitOf_def)

lemma hand_drawUpdate:
  "handLimitOf (fst (drawUpdate prev)) = handLimitOf prev
   \<and> int (length (handOf (fst (drawUpdate prev)))) \<le> max (int (length (handOf prev))) (handLimitOf prev)"
  by (simp add: drawUpdate_def Let_def zone_field_simps)

lemma hand_draw:
  "handLimitOf (builderState (draw eager c)) = handLimitOf (builderState c)
   \<and> int (length (handOf (builderState (draw eager c))))
       \<le> max (int (length (handOf (builderState c)))) (handLimitOf (builderState c))"
  using hand_drawUpdate [of "builderState c"] by (simp add: draw_state)

lemma hand_handleDraw:
  "handLimitOf (builderState (handleDraw eager c)) = handLimitOf (builderState c)
   \<and> int (length (handOf (builderState (handleDraw eager c))))
       \<le> max (int (length (handOf (builderState c)))) (handLimitOf (builderState c))"
  using hand_draw [of eager c] by (simp add: handleDraw_def)

lemma hand_returnDiscardGroupToHandUpdate:
  "handLimitOf (returnDiscardGroupToHandUpdate cardId all prev) = handLimitOf prev
   \<and> int (length (handOf (returnDiscardGroupToHandUpdate cardId all prev)))
       \<le> max (int (length (handOf prev))) (handLimitOf prev)"
proof -
  let ?space = "max 0 (handLimitOf prev - int (length (handOf prev)))"
  obtain dc moved where l: "toHandLoop (length (discardOf prev)) cardId all (nat ?space)
      (discardOf prev) [] = (dc, moved)"
    by (cases "toHandLoop (length (discardOf prev)) cardId all (nat ?space) (discardOf prev) []")
  from toHandLoop_length [OF l] have "length moved \<le> nat ?space"
    by simp
  then show ?thesis
    by (auto simp add: returnDiscardGroupToHandUpdate_eq [OF l] zone_field_simps)
qed

lemma hand_discardGroupFromHandUpdate:
  "handLimitOf (discardGroupFromHandUpdate cardId all origin prev) = handLimitOf prev
   \<and> length (handOf (discardGroupFromHandUpdate cardId all origin prev)) \<le> length (handOf prev)"
proof -
  obtain hnd removed where l:
    "(if all then fromHandLoop (length (handOf prev)) cardId (handOf prev) []
      else
        let idx = findIndex (\<lambda>h. h_id h = cardId) (handOf prev)
        in if idx \<ge> 0 then (splice1 (nat idx) (handOf prev), [handOf prev ! nat idx])
           else (handOf prev, [])) = (hnd, removed)"
    by (cases "(if all then fromHandLoop (length (handOf prev)) cardId (handOf prev) []
      else
        let idx = findIndex (\<lambda>h. h_id h = cardId) (handOf prev)
        in if idx \<ge> 0 then (splice1 (nat idx) (handOf prev), [handOf prev ! nat idx])
           else (handOf prev, []))")
  from discardGroupFromHand_removed [OF l] have "length hnd \<le> length (handOf prev)"
    by simp
  then show ?thesis
    by (simp add: discardGroupFromHandUpdate_eq [OF l] zone_field_simps)
qed

lemma hand_fold_discard:
  "handLimitOf (foldl (\<lambda>s m. discardGroupFromHandUpdate m False OriginPlayed s) s0 ms) = handLimitOf s0
   \<and> length (handOf (foldl (\<lambda>s m. discardGroupFromHandUpdate m False OriginPlayed s) s0 ms))
       \<le> length (handOf s0)"
proof (induction ms arbitrary: s0)
  case Nil
  show ?case by simp
next
  case (Cons m ms)
  from Cons.IH [of "discardGroupFromHandUpdate m False OriginPlayed s0"]
    hand_discardGroupFromHandUpdate [of m False OriginPlayed s0]
  show ?case by simp
qed

lemma hand_finalizePlay:
  "handLimitOf (builderState (finalizePlay c)) = handLimitOf (builderState c)
   \<and> length (handOf (builderState (finalizePlay c))) \<le> length (handOf (builderState c))"
proof (cases "finalizeSelection (activePlay c)")
  case None
  then show ?thesis by (simp add: finalizePlay_def)
next
  case (Some sel)
  from hand_fold_discard [of "discardGroupFromHandUpdate (baseId sel) False OriginPlayed (builderState c)" "mods sel"]
    hand_discardGroupFromHandUpdate [of "baseId sel" False OriginPlayed "builderState c"]
  show ?thesis
    using Some by (simp add: finalizePlay_def)
qed

lemma hand_exec:
  assumes "\<not> changesHandLimit cmd"
  shows "handLimitOf (builderState (exec P cmd c)) = handLimitOf (builderState c)
   \<and> int (length (handOf (builderState (exec P cmd c))))
       \<le> max (int (length (handOf (builderState c)))) (handLimitOf (builderState c))"
proof (cases cmd)
  case (AdjustBaseCount cardId delta)
  then show ?thesis
    by (simp add: adjustBaseCount_def adjustBaseCountUpdate_def Let_def hand_other_fields)
next
  case (AdjustModCount cardId delta)
  then show ?thesis
    by (simp add: adjustModCount_def adjustModCountUpdate_def hand_other_fields)
next
  case (AdjustNullCount delta)
  then show ?thesis
    by (simp add: adjustNullCount_def adjustNullCountUpdate_def hand_other_fields)
next
  case (ToggleLockDeck rnd)
  have "0 \<le> max (int (length (handOf (builderState c)))) (handLimitOf (builderState c))"
    by (simp add: max_def)
  with ToggleLockDeck show ?thesis
    by (simp add: toggleLockDeck_def Let_def hand_other_fields zone_field_simps)
next
  case (ShuffleDeck confirmed rnd)
  then show ?thesis
    by (simp add: shuffleDeck_def Let_def hand_other_fields zone_field_simps)
next
  case (HandleDraw eager)
  then show ?thesis using hand_handleDraw [of eager c] by simp
next
  case (Draw eager)
  then show ?thesis using hand_draw [of eager c] by simp
next
  case (DiscardFromDeck cnt)
  then show ?thesis
    by (simp add: discardFromDeck_def Let_def zone_field_simps split: prod.split)
next
  case (ReturnDiscardToDeck shuffle toTop rnd1 rnd2)
  then show ?thesis
    by (simp add: returnDiscardToDeck_def Let_def zone_field_simps)
next
  case (ReturnDiscardGroupToDeck cardId all)
  then show ?thesis
    by (simp add: returnDiscardGroupToDeck_def returnDiscardGroupToDeckUpdate_def Let_def
        zone_field_simps)
next
  case (ReturnDiscardGroupToHand cardId all)
  then show ?thesis
    using hand_returnDiscardGroupToHandUpdate [of cardId all "builderState c"]
    by (simp add: returnDiscardGroupToHand_def)
next
  case (DiscardGroupFromHand cardId all origin)
  then show ?thesis
    using hand_discardGroupFromHandUpdate [of cardId all origin "builderState c"]
    by (auto simp add: discardGroupFromHand_def max_def)
next
  case FinalizePlay
  then show ?thesis using hand_finalizePlay [of c] by (auto simp add: max_def)
next
  case (SetHandLimit lim)
  with assms show ?thesis by simp
qed

lemma hand_run:
  "list_all (\<lambda>cmd. \<not> changesHandLimit cmd) cmds \<Longrightarrow>
   int (length (handOf (builderState c))) \<le> handLimitOf (builderState c) \<Longrightarrow>
   int (length (handOf (builderState (run P cmds c)))) \<le> handLimitOf (builderState (run P cmds c))"
proof (induction cmds arbitrary: c)
  case Nil
  then show ?case by (simp add: run_def)
next
  case (Cons cmd cmds)
  from Cons.prems(1) have a: "\<not> changesHandLimit cmd"
    and b: "list_all (\<lambda>cmd. \<not> changesHandLimit cmd) cmds"
    by simp_all
  from hand_exec [OF a, of P c] Cons.prems(2)
  have "int (length (handOf (builderState (exec P cmd c)))) \<le> handLimitOf (builderState (exec P cmd c))"
    by simp
  from Cons.IH [OF b this] show ?case
    by (simp add: run_def)
qed

lemma hand_mount:
  "handOf (builderState (initialComponent P raw))
     = (case raw of None \<Rightarrow> [] | Some parsed \<Rightarrow> coalesce (st_hand parsed) [])
   \<and> handLimitOf (builderState (initialComponent P raw))
     = (case raw of
          None \<Rightarrow> DEFAULT_HAND_LIMIT
        | Some parsed \<Rightarrow>
            clamp (coalesce (st_handLimit parsed) DEFAULT_HAND_LIMIT) 0 (Some MAX_HAND_LIMIT))"
  by (simp add: initialComponent_def applyInitialCounts_def loadState_def defaultState_def Let_def
      handOf_def handLimitOf_def coalesce_def split: option.split)

text \<open>
  Claim C2, as the code has it. Every command but the hand limit input leaves
  \<open>handLimit\<close> as it is and never makes the hand longer than the larger of its length
  before and the limit: \<open>draw\<close> and the return of discarded cards to the hand (one card or
  a group) are no-ops at the limit and move no more cards than fit below it. So these
  commands keep \<open>hand.length \<le> handLimit\<close> from every state where it holds. The component
  mounted on an empty storage is such a state: the hand is empty and the limit 5. Mounted
  on a stored state, the hand is the stored hand as it is and the limit the stored limit
  clamped into \<open>0..MAX_HAND_LIMIT\<close> (5 when none is stored), each restored without a look at
  the other; the bound holds there exactly when the stored hand fits that limit. What the
  component stores is the hand and the limit of its state, unchanged. The hand limit input
  clamps the number typed into \<open>0..MAX_HAND_LIMIT\<close> (and keeps the limit when the input is
  not a number); it neither reads nor changes the hand.
\<close>

theorem hand_limit_invariant:
  "(\<not> changesHandLimit cmd \<longrightarrow>
      handLimitOf (builderState (exec P cmd c)) = handLimitOf (builderState c)
      \<and> int (length (handOf (builderState (exec P cmd c))))
          \<le> max (int (length (handOf (builderState c)))) (handLimitOf (builderState c)))
   \<and> (list_all (\<lambda>cmd. \<not> changesHandLimit cmd) cmds
       \<and> int (length (handOf (builderState c))) \<le> handLimitOf (builderState c) \<longrightarrow>
      int (length (handOf (builderState (run P cmds c)))) \<le> handLimitOf (builderState (run P cmds c)))
   \<and> handOf (builderState (initialComponent P None)) = []
   \<and> handLimitOf (builderState (initialComponent P None)) = 5
   \<and> handOf (builderState (initialComponent P (Some parsed))) = coalesce (st_hand parsed) []
   \<and> handLimitOf (builderState (initialComponent P (Some parsed)))
        = clamp (coalesce (st_handLimit parsed) DEFAULT_HAND_LIMIT) 0 (Some MAX_HAND_LIMIT)
   \<and> (list_all (\<lambda>cmd. \<not> changesHandLimit cmd) cmds \<longrightarrow>
      int (length (handOf (builderState (run P cmds (initialComponent P None)))))
        \<le> handLimitOf (builderState (run P cmds (initialComponent P None))))
   \<and> (list_all (\<lambda>cmd. \<not> changesHandLimit cmd) cmds
       \<and> int (length (coalesce (st_hand parsed) []))
           \<le> clamp (coalesce (st_handLimit parsed) DEFAULT_HAND_LIMIT) 0 (Some MAX_HAND_LIMIT) \<longrightarrow>
      int (length (handOf (builderState (run P cmds (initialComponent P (Some parsed))))))
        \<le> handLimitOf (builderState (run P cmds (initialComponent P (Some parsed)))))
   \<and> st_hand (persisted c) = hand (builderState c)
   \<and> st_handLimit (persisted c) = handLimit (builderState c)
   \<and> (handLimitOf (builderState c) \<le> int (length (handOf (builderState c))) \<longrightarrow>
      draw eager c = c \<and> returnDiscardGroupToHand cardId all c = c)
   \<and> handOf (builderState (setHandLimit next c)) = handOf (builderState c)
   \<and> handLimitOf (builderState (setHandLimit (Some n) c)) = clamp n 0 (Some MAX_HAND_LIMIT)
   \<and> 0 \<le> clamp n 0 (Some MAX_HAND_LIMIT) \<and> clamp n 0 (Some MAX_HAND_LIMIT) \<le> MAX_HAND_LIMIT
   \<and> handLimitOf (builderState (setHandLimit None c)) = handLimitOf (builderState c)"
proof -
  have c1: "\<not> changesHandLimit cmd \<longrightarrow>
      handLimitOf (builderState (exec P cmd c)) = handLimitOf (builderState c)
      \<and> int (length (handOf (builderState (exec P cmd c))))
          \<le> max (int (length (handOf (builderState c)))) (handLimitOf (builderState c))"
    using hand_exec [of cmd P c] by blast
  have c2: "list_all (\<lambda>cmd. \<not> changesHandLimit cmd) cmds
       \<and> int (length (handOf (builderState c))) \<le> handLimitOf (builderState c) \<longrightarrow>
      int (length (handOf (builderState (run P cmds c)))) \<le> handLimitOf (builderState (run P cmds c))"
    using hand_run [of cmds c P] by blast
  have m1: "handOf (builderState (initialComponent P None)) = []"
    using hand_mount [of P None] by simp
  have m2: "handLimitOf (builderState (initialComponent P None)) = 5"
    using hand_mount [of P None] by (simp add: DEFAULT_HAND_LIMIT_def)
  have m3: "handOf (builderState (initialComponent P (Some parsed))) = coalesce (st_hand parsed) []"
    using hand_mount [of P "Some parsed"] by simp
  have m4: "handLimitOf (builderState (initialComponent P (Some parsed)))
        = clamp (coalesce (st_handLimit parsed) DEFAULT_HAND_LIMIT) 0 (Some MAX_HAND_LIMIT)"
    using hand_mount [of P "Some parsed"] by simp
  have c3: "list_all (\<lambda>cmd. \<not> changesHandLimit cmd) cmds \<longrightarrow>
      int (length (handOf (builderState (run P cmds (initialComponent P None)))))
        \<le> handLimitOf (builderState (run P cmds (initialComponent P None)))"
    using hand_run [of cmds "initialComponent P None" P] m1 m2 by simp
  have c3': "list_all (\<lambda>cmd. \<not> changesHandLimit cmd) cmds
       \<and> int (length (coalesce (st_hand parsed) []))
           \<le> clamp (coalesce (st_handLimit parsed) DEFAULT_HAND_LIMIT) 0 (Some MAX_HAND_LIMIT) \<longrightarrow>
      int (length (handOf (builderState (run P cmds (initialComponent P (Some parsed))))))
        \<le> handLimitOf (builderState (run P cmds (initialComponent P (Some parsed))))"
    using hand_run [of cmds "initialComponent P (Some parsed)" P] m3 m4 by simp
  have p1: "st_hand (persisted c) = hand (builderState c)"
    by (simp add: persisted_def Let_def)
  have p2: "st_handLimit (persisted c) = handLimit (builderState c)"
    by (simp add: persisted_def Let_def)
  have c4: "handLimitOf (builderState c) \<le> int (length (handOf (builderState c))) \<longrightarrow>
      draw eager c = c \<and> returnDiscardGroupToHand cardId all c = c"
    by (simp add: draw_hand_full returnDiscardGroupToHand_def returnDiscardGroupToHandUpdate_def
        Let_def)
  have c5: "handOf (builderState (setHandLimit next c)) = handOf (builderState c)"
    by (simp add: setHandLimit_def Let_def handOf_def)
  have c6: "handLimitOf (builderState (setHandLimit (Some n) c)) = clamp n 0 (Some MAX_HAND_LIMIT)"
    by (simp add: setHandLimit_def Let_def handLimitOf_def coalesce_def)
  have c7: "0 \<le> clamp n 0 (Some MAX_HAND_LIMIT)"
    by (simp add: clamp_def MAX_HAND_LIMIT_def)
  have c8: "clamp n 0 (Some MAX_HAND_LIMIT) \<le> MAX_HAND_LIMIT"
    by (simp add: clamp_def MAX_HAND_LIMIT_def)
  have c9: "handLimitOf (builderState (setHandLimit None c)) = handLimitOf (builderState c)"
    by (simp add: setHandLimit_def Let_def handLimitOf_def coalesce_def)
  show ?thesis
    by (intro conjI; fact)
qed

theorem hand_limit_invariant_witness:
  "\<not> changesHandLimit (HandleDraw True)
   \<and> handLimitOf (builderState (exec exampleProps (HandleDraw True) readyExample)) = 5
   \<and> list_all (\<lambda>cmd. \<not> changesHandLimit cmd)
       [HandleDraw True, HandleDraw False, HandleDraw True, HandleDraw True, HandleDraw True,
        HandleDraw True]
   \<and> int (length (handOf (builderState readyExample))) \<le> handLimitOf (builderState readyExample)
   \<and> int (length (handOf (builderState (run exampleProps
           [HandleDraw True, HandleDraw False, HandleDraw True, HandleDraw True, HandleDraw True,
            HandleDraw True] readyExample))))
       \<le> handLimitOf (builderState (run exampleProps
           [HandleDraw True, HandleDraw False, HandleDraw True, HandleDraw True, HandleDraw True,
            HandleDraw True] readyExample))
   \<and> int (length (coalesce (st_hand (persisted fullHandExample)) []))
       \<le> clamp (coalesce (st_handLimit (persisted fullHandExample)) DEFAULT_HAND_LIMIT) 0
            (Some MAX_HAND_LIMIT)
   \<and> int (length (handOf (builderState (run exampleProps
           [HandleDraw True, ReturnDiscardGroupToHand ''N0'' True]
           (initialComponent exampleProps (Some (persisted fullHandExample)))))))
       \<le> handLimitOf (builderState (run exampleProps
           [HandleDraw True, ReturnDiscardGroupToHand ''N0'' True]
           (initialComponent exampleProps (Some (persisted fullHandExample)))))
   \<and> handLimitOf (builderState (setHandLimit (Some 0) (handleDraw True readyExample))) = 0
   \<and> handLimitOf (builderState fullHandExample) \<le> int (length (handOf (builderState fullHandExample)))
   \<and> draw True fullHandExample = fullHandExample
   \<and> returnDiscardGroupToHand ''N0'' True fullHandExample = fullHandExample"
proof -
  have full: "handLimitOf (builderState fullHandExample) \<le> int (length (handOf (builderState fullHandExample)))"
    by code_simp
  from hand_limit_invariant [of _ _ fullHandExample _ _ True "''N0''" True] full
  have e: "draw True fullHandExample = fullHandExample
      \<and> returnDiscardGroupToHand ''N0'' True fullHandExample = fullHandExample"
    by blast
  let ?draws = "[HandleDraw True, HandleDraw False, HandleDraw True, HandleDraw True,
      HandleDraw True, HandleDraw True]"
  note t = hand_limit_invariant [of "HandleDraw True" exampleProps readyExample ?draws _ _ _ _ _ 0]
  have a: "\<not> changesHandLimit (HandleDraw True)"
    by simp
  have l: "list_all (\<lambda>cmd. \<not> changesHandLimit cmd) ?draws"
    by simp
  have r: "int (length (handOf (builderState readyExample))) \<le> handLimitOf (builderState readyExample)"
    using readyExample_state by simp
  have h5: "handLimitOf (builderState readyExample) = 5"
    by code_simp
  from t a h5 have b: "handLimitOf (builderState (exec exampleProps (HandleDraw True) readyExample)) = 5"
    by simp
  from t l r have c: "int (length (handOf (builderState (run exampleProps ?draws readyExample))))
       \<le> handLimitOf (builderState (run exampleProps ?draws readyExample))"
    by blast
  let ?cmds = "[HandleDraw True, ReturnDiscardGroupToHand ''N0'' True]"
  note s = hand_limit_invariant [of _ exampleProps _ ?cmds "persisted fullHandExample"]
  have l2: "list_all (\<lambda>cmd. \<not> changesHandLimit cmd) ?cmds"
    by simp
  have fits: "int (length (coalesce (st_hand (persisted fullHandExample)) []))
       \<le> clamp (coalesce (st_handLimit (persisted fullHandExample)) DEFAULT_HAND_LIMIT) 0
            (Some MAX_HAND_LIMIT)"
    by code_simp
  from s l2 fits have m: "int (length (handOf (builderState (run exampleProps ?cmds
           (initialComponent exampleProps (Some (persisted fullHandExample)))))))
       \<le> handLimitOf (builderState (run exampleProps ?cmds
           (initialComponent exampleProps (Some (persisted fullHandExample)))))"
    by blast
  have d: "handLimitOf (builderState (setHandLimit (Some 0) (handleDraw True readyExample))) = 0"
    by code_simp
  from a b l r c fits m d full e show ?thesis
    by blast
qed

text \<open>
  The claim C2 as it is written fails at the hand limit input. From the component mounted
  on an empty storage: add a base card, lock, shuffle, draw one card, set the hand limit to
  0. The hand then holds one card and the limit is 0. The component stores that state, and
  mounted on it again it starts with the same hand of one card and the limit 0.
\<close>

theorem hand_limit_counterexample:
  "run exampleProps
     [AdjustBaseCount ''B1'' 1, ToggleLockDeck firstIndex, ShuffleDeck True firstIndex,
      HandleDraw True, SetHandLimit (Some 0)]
     (initialComponent exampleProps None) = handLimitExample
   \<and> hand (builderState handLimitExample) = Some [HandEntry ''N0'' Unspent]
   \<and> handLimit (builderState handLimitExample) = Some 0
   \<and> int (length (handOf (builderState handLimitExample))) = 1
   \<and> handLimitOf (builderState handLimitExample) = 0
   \<and> \<not> int (length (handOf (builderState handLimitExample)))
         \<le> handLimitOf (builderState handLimitExample)
   \<and> handOf (builderState (initialComponent exampleProps (Some (persisted handLimitExample))))
       = [HandEntry ''N0'' Unspent]
   \<and> handLimitOf (builderState (initialComponent exampleProps (Some (persisted handLimitExample))))
       = 0"
  by code_simp

subsection \<open>Finalizing a play\<close>

lemma splice1_Cons: "splice1 0 (x # xs) = xs" "splice1 (Suc i) (x # xs) = x # splice1 i xs"
  by (simp_all add: splice1_def)

lemma findIndex_remove1:
  "findIndex (\<lambda>h. f h = m) xs \<noteq> - 1 \<Longrightarrow>
     map f (splice1 (nat (findIndex (\<lambda>h. f h = m) xs)) xs) = remove1 m (map f xs)"
proof (induction xs)
  case Nil
  then show ?case by simp
next
  case (Cons x xs)
  show ?case
  proof (cases "f x = m")
    case True
    then show ?thesis by (simp add: splice1_Cons)
  next
    case False
    with Cons.prems have r: "findIndex (\<lambda>h. f h = m) xs \<noteq> - 1"
      by (auto simp: Let_def split: if_splits)
    with findIndex_ge [of "\<lambda>h. f h = m" xs] have "findIndex (\<lambda>h. f h = m) xs \<ge> 0"
      by linarith
    then have "nat (findIndex (\<lambda>h. f h = m) xs + 1) = Suc (nat (findIndex (\<lambda>h. f h = m) xs))"
      by simp
    with Cons.IH [OF r] False r show ?thesis
      by (simp add: Let_def splice1_Cons)
  qed
qed

lemma discardOne_eq:
  "discardGroupFromHandUpdate m False origin s =
     (if m \<in> set (map h_id (handOf s))
      then s\<lparr> hand := Some (splice1 (nat (findIndex (\<lambda>h. h_id h = m) (handOf s))) (handOf s)),
              discard := Some (discardOf s @ [DiscardEntry m origin]) \<rparr>
      else s)"
proof (cases "findIndex (\<lambda>h. h_id h = m) (handOf s) = - 1")
  case True
  then have "m \<notin> set (map h_id (handOf s))"
    by (auto simp add: findIndex_none)
  with True show ?thesis
    by (simp add: discardGroupFromHandUpdate_def Let_def)
next
  case False
  then have "m \<in> set (map h_id (handOf s))"
    by (auto simp add: findIndex_none)
  moreover from False findIndex_ge [of "\<lambda>h. h_id h = m" "handOf s"]
  have "findIndex (\<lambda>h. h_id h = m) (handOf s) \<ge> 0"
    by linarith
  moreover from findIndex_found [OF False]
  have "h_id (handOf s ! nat (findIndex (\<lambda>h. h_id h = m) (handOf s))) = m"
    by simp
  ultimately show ?thesis
    by (simp add: discardGroupFromHandUpdate_def Let_def)
qed

lemma discardOne_effect:
  "map h_id (handOf (discardGroupFromHandUpdate m False origin s)) = remove1 m (map h_id (handOf s))
   \<and> discardOf (discardGroupFromHandUpdate m False origin s)
       = discardOf s @ map (\<lambda>i. DiscardEntry i origin) (if m \<in> set (map h_id (handOf s)) then [m] else [])
   \<and> deck (discardGroupFromHandUpdate m False origin s) = deck s"
proof (cases "m \<in> set (map h_id (handOf s))")
  case True
  then have "findIndex (\<lambda>h. h_id h = m) (handOf s) \<noteq> - 1"
    by (auto simp add: findIndex_none)
  from findIndex_remove1 [OF this] True show ?thesis
    by (simp add: discardOne_eq zone_field_simps)
next
  case False
  then have "remove1 m (map h_id (handOf s)) = map h_id (handOf s)"
    by (simp add: remove1_idem)
  with False show ?thesis
    by (simp add: discardOne_eq)
qed

lemma discardEach_effect:
  "\<exists>moved.
     discardOf (foldl (\<lambda>s m. discardGroupFromHandUpdate m False origin s) s0 ms)
       = discardOf s0 @ map (\<lambda>i. DiscardEntry i origin) moved
     \<and> mset (map h_id (handOf (foldl (\<lambda>s m. discardGroupFromHandUpdate m False origin s) s0 ms)))
         = mset (map h_id (handOf s0)) - mset ms
     \<and> mset moved + mset (map h_id (handOf (foldl (\<lambda>s m. discardGroupFromHandUpdate m False origin s) s0 ms)))
         = mset (map h_id (handOf s0))
     \<and> (mset ms \<subseteq># mset (map h_id (handOf s0)) \<longrightarrow> moved = ms)
     \<and> deck (foldl (\<lambda>s m. discardGroupFromHandUpdate m False origin s) s0 ms) = deck s0"
proof (induction ms arbitrary: s0)
  case Nil
  show ?case by (rule exI [of _ "[]"]) simp
next
  case (Cons m ms)
  let ?s1 = "discardGroupFromHandUpdate m False origin s0"
  let ?F = "foldl (\<lambda>s m. discardGroupFromHandUpdate m False origin s) ?s1 ms"
  let ?ids = "map h_id (handOf s0)"
  let ?one = "if m \<in> set ?ids then [m] else []"
  note e = discardOne_effect [of m origin s0]
  from e have h1: "map h_id (handOf ?s1) = remove1 m ?ids"
    and d1: "discardOf ?s1 = discardOf s0 @ map (\<lambda>i. DiscardEntry i origin) ?one"
    and k1: "deck ?s1 = deck s0"
    by blast+
  from Cons.IH [of ?s1] obtain moved where
    d: "discardOf ?F = discardOf ?s1 @ map (\<lambda>i. DiscardEntry i origin) moved"
    and h: "mset (map h_id (handOf ?F)) = mset (map h_id (handOf ?s1)) - mset ms"
    and cons: "mset moved + mset (map h_id (handOf ?F)) = mset (map h_id (handOf ?s1))"
    and pres: "mset ms \<subseteq># mset (map h_id (handOf ?s1)) \<longrightarrow> moved = ms"
    and k: "deck ?F = deck ?s1"
    by blast
  have one: "mset ?one + mset (remove1 m ?ids) = mset ?ids"
    by (simp add: remove1_idem)
  have a: "discardOf ?F = discardOf s0 @ map (\<lambda>i. DiscardEntry i origin) (?one @ moved)"
    using d d1 by simp
  have b: "mset (map h_id (handOf ?F)) = mset ?ids - mset (m # ms)"
    using h h1 by (simp add: diff_diff_add)
  have c: "mset (?one @ moved) + mset (map h_id (handOf ?F)) = mset ?ids"
    using cons h1 one by (simp add: ac_simps)
  have p: "mset (m # ms) \<subseteq># mset ?ids \<longrightarrow> ?one @ moved = m # ms"
  proof
    assume sub: "mset (m # ms) \<subseteq># mset ?ids"
    then have mem: "m \<in> set ?ids"
      by (metis insert_subset_eq_iff mset.simps(2) set_mset_mset mset_subset_eq_insertD)
    from sub have "mset ms \<subseteq># mset ?ids - {#m#}"
      by (simp add: insert_subset_eq_iff)
    then have "mset ms \<subseteq># mset (map h_id (handOf ?s1))"
      using h1 by simp
    with pres have "moved = ms" by blast
    with mem show "?one @ moved = m # ms" by simp
  qed
  have kk: "deck ?F = deck s0"
    using k k1 by simp
  show ?case
    apply (rule exI [of _ "?one @ moved"])
    using a b c p kk by simp
qed

lemma splice1_findIndex_removeFirstId:
  "findIndex (\<lambda>h. h_id h = m) xs \<noteq> - 1 \<Longrightarrow>
     splice1 (nat (findIndex (\<lambda>h. h_id h = m) xs)) xs = removeFirstId m xs"
proof (induction xs)
  case Nil
  then show ?case by simp
next
  case (Cons x xs)
  show ?case
  proof (cases "h_id x = m")
    case True
    then show ?thesis by (simp add: splice1_Cons)
  next
    case False
    with Cons.prems have r: "findIndex (\<lambda>h. h_id h = m) xs \<noteq> - 1"
      by (auto simp: Let_def split: if_splits)
    with findIndex_ge [of "\<lambda>h. h_id h = m" xs] have "findIndex (\<lambda>h. h_id h = m) xs \<ge> 0"
      by linarith
    then have "nat (findIndex (\<lambda>h. h_id h = m) xs + 1) = Suc (nat (findIndex (\<lambda>h. h_id h = m) xs))"
      by simp
    with Cons.IH [OF r] False r show ?thesis
      by (simp add: Let_def splice1_Cons)
  qed
qed

lemma removeFirstId_absent: "m \<notin> h_id ` set xs \<Longrightarrow> removeFirstId m xs = xs"
  by (induction xs) auto

text \<open>\<open>removeFirstId\<close> takes out the first entry with the id and nothing else: the entries
  before it and the entries after it stay, in their order.\<close>

lemma removeFirstId_takeWhile:
  "removeFirstId m hs
     = takeWhile (\<lambda>h. h_id h \<noteq> m) hs @ drop 1 (dropWhile (\<lambda>h. h_id h \<noteq> m) hs)"
  by (induction hs) auto

lemma discardOne_list:
  "discardGroupFromHandUpdate m False origin s =
     (if m \<in> h_id ` set (handOf s)
      then s\<lparr> hand := Some (removeFirstId m (handOf s)),
              discard := Some (discardOf s @ [DiscardEntry m origin]) \<rparr>
      else s)"
proof (cases "m \<in> h_id ` set (handOf s)")
  case True
  then have "findIndex (\<lambda>h. h_id h = m) (handOf s) \<noteq> - 1"
    by (auto simp add: findIndex_none)
  from splice1_findIndex_removeFirstId [OF this] True show ?thesis
    by (simp add: discardOne_eq)
next
  case False
  then show ?thesis
    by (simp add: discardOne_eq)
qed

lemma movedIds_Nil: "movedIds hs ms = [] \<Longrightarrow> handWithout hs ms = hs"
proof (induction ms arbitrary: hs)
  case Nil
  show ?case by simp
next
  case (Cons m ms)
  from Cons.prems have a: "m \<notin> h_id ` set hs" and b: "movedIds hs ms = []"
    by (simp_all split: if_splits)
  from a have "removeFirstId m hs = hs"
    by (rule removeFirstId_absent)
  with Cons.IH [OF b] show ?case
    by simp
qed

lemma discardEach_list:
  "foldl (\<lambda>s m. discardGroupFromHandUpdate m False origin s) s0 ms =
     (if movedIds (handOf s0) ms = [] then s0
      else s0\<lparr> hand := Some (handWithout (handOf s0) ms),
               discard := Some (discardOf s0
                                @ map (\<lambda>i. DiscardEntry i origin) (movedIds (handOf s0) ms)) \<rparr>)"
proof (induction ms arbitrary: s0)
  case Nil
  show ?case by simp
next
  case (Cons m ms)
  show ?case
  proof (cases "m \<in> h_id ` set (handOf s0)")
    case False
    then have "removeFirstId m (handOf s0) = handOf s0"
      by (rule removeFirstId_absent)
    with False Cons.IH [of s0] show ?thesis
      by (simp add: discardOne_list)
  next
    case True
    let ?h1 = "removeFirstId m (handOf s0)"
    let ?s1 = "s0\<lparr> hand := Some ?h1, discard := Some (discardOf s0 @ [DiscardEntry m origin]) \<rparr>"
    have s1: "discardGroupFromHandUpdate m False origin s0 = ?s1"
      using True by (simp add: discardOne_list)
    have h1: "handOf ?s1 = ?h1" and d1: "discardOf ?s1 = discardOf s0 @ [DiscardEntry m origin]"
      by (simp_all add: zone_field_simps)
    show ?thesis
    proof (cases "movedIds ?h1 ms = []")
      case True
      note nomore = this
      then have "handWithout ?h1 ms = ?h1"
        by (rule movedIds_Nil)
      with nomore \<open>m \<in> h_id ` set (handOf s0)\<close> Cons.IH [of ?s1] show ?thesis
        by (simp add: s1 h1 d1)
    next
      case False
      with \<open>m \<in> h_id ` set (handOf s0)\<close> Cons.IH [of ?s1] show ?thesis
        by (simp add: s1 h1 d1)
    qed
  qed
qed

text \<open>
  Claim C8, as the code has it. With no selection to finalize, \<open>finalizePlay\<close> returns the
  state as it is: zones and \<open>activePlay\<close> unchanged. With a selection it runs
  \<open>discardGroupFromHand(id, false, played)\<close> for the base id and then for each attached
  modifier id, and clears \<open>activePlay\<close>. Each of these calls takes the first hand entry
  with that id out of the hand, one entry and not all, and appends it to the discard pile
  tagged played; it is skipped when the hand has no entry with that id. So the hand after
  \<open>finalizePlay\<close> is the hand before without the first entry of each selected id in turn
  (\<open>handWithout\<close>), the other entries in their order and state; the discard pile is the one
  before followed by one entry tagged played for every selected id that was found in the
  hand at its turn (\<open>movedIds\<close>), in the order of the selection; the deck and everything
  else in the builder state are untouched. As multisets, the ids of the hand lose the
  selected ids, and when all selected ids are in the hand the discard pile gains exactly
  one entry for the base and one for each attached modifier, in that order.
\<close>

theorem finalizePlay_effect:
  "(finalizeSelection (activePlay c) = None \<longrightarrow> finalizePlay c = c)
   \<and> (finalizeSelection (activePlay c) = Some sel \<longrightarrow>
        finalizePlay c =
          c\<lparr> builderState :=
                (if movedIds (handOf (builderState c)) (baseId sel # mods sel) = []
                 then builderState c
                 else (builderState c)
                   \<lparr> hand := Some (handWithout (handOf (builderState c)) (baseId sel # mods sel)),
                     discard := Some (discardOf (builderState c)
                        @ map (\<lambda>i. DiscardEntry i OriginPlayed)
                            (movedIds (handOf (builderState c)) (baseId sel # mods sel))) \<rparr>),
             activePlay := None \<rparr>
      \<and> activePlay (finalizePlay c) = None
      \<and> deck (builderState (finalizePlay c)) = deck (builderState c)
      \<and> handOf (builderState (finalizePlay c))
          = handWithout (handOf (builderState c)) (baseId sel # mods sel)
      \<and> discardOf (builderState (finalizePlay c))
          = discardOf (builderState c)
            @ map (\<lambda>i. DiscardEntry i OriginPlayed)
                (movedIds (handOf (builderState c)) (baseId sel # mods sel))
      \<and> mset (map h_id (handOf (builderState (finalizePlay c))))
          = mset (map h_id (handOf (builderState c))) - mset (baseId sel # mods sel)
      \<and> (\<exists>moved.
            discardOf (builderState (finalizePlay c))
              = discardOf (builderState c) @ map (\<lambda>i. DiscardEntry i OriginPlayed) moved
          \<and> mset moved + mset (map h_id (handOf (builderState (finalizePlay c))))
              = mset (map h_id (handOf (builderState c)))
          \<and> (mset (baseId sel # mods sel) \<subseteq># mset (map h_id (handOf (builderState c)))
               \<longrightarrow> moved = baseId sel # mods sel)))"
proof (intro conjI impI)
  assume "finalizeSelection (activePlay c) = None"
  then show "finalizePlay c = c"
    by (simp add: finalizePlay_def)
next
  assume s: "finalizeSelection (activePlay c) = Some sel"
  then show "activePlay (finalizePlay c) = None"
    by (simp add: finalizePlay_def)
next
  assume s: "finalizeSelection (activePlay c) = Some sel"
  let ?ms = "baseId sel # mods sel"
  let ?h = "handOf (builderState c)"
  have bs: "builderState (finalizePlay c)
      = foldl (\<lambda>s m. discardGroupFromHandUpdate m False OriginPlayed s) (builderState c) ?ms"
    using s by (simp add: finalizePlay_def)
  note lst = discardEach_list [of OriginPlayed "builderState c" ?ms]
  show "finalizePlay c =
          c\<lparr> builderState :=
                (if movedIds ?h ?ms = []
                 then builderState c
                 else (builderState c)
                   \<lparr> hand := Some (handWithout ?h ?ms),
                     discard := Some (discardOf (builderState c)
                        @ map (\<lambda>i. DiscardEntry i OriginPlayed) (movedIds ?h ?ms)) \<rparr>),
             activePlay := None \<rparr>"
    using s lst by (simp add: finalizePlay_def)
  show "handOf (builderState (finalizePlay c)) = handWithout ?h ?ms"
  proof (cases "movedIds ?h ?ms = []")
    case True
    from movedIds_Nil [OF this] True show ?thesis
      unfolding bs lst by simp
  next
    case False
    then show ?thesis
      unfolding bs lst by (simp add: zone_field_simps)
  qed
  show "discardOf (builderState (finalizePlay c))
          = discardOf (builderState c)
            @ map (\<lambda>i. DiscardEntry i OriginPlayed) (movedIds ?h ?ms)"
    unfolding bs lst by (simp add: zone_field_simps)
  from discardEach_effect [of OriginPlayed "builderState c" ?ms]
  obtain moved where
    d: "discardOf (builderState (finalizePlay c))
          = discardOf (builderState c) @ map (\<lambda>i. DiscardEntry i OriginPlayed) moved"
    and h: "mset (map h_id (handOf (builderState (finalizePlay c))))
          = mset (map h_id (handOf (builderState c))) - mset ?ms"
    and cons: "mset moved + mset (map h_id (handOf (builderState (finalizePlay c))))
          = mset (map h_id (handOf (builderState c)))"
    and pres: "mset ?ms \<subseteq># mset (map h_id (handOf (builderState c)))
          \<longrightarrow> moved = ?ms"
    and k: "deck (builderState (finalizePlay c)) = deck (builderState c)"
    unfolding bs by blast
  show "deck (builderState (finalizePlay c)) = deck (builderState c)"
    by (rule k)
  show "mset (map h_id (handOf (builderState (finalizePlay c))))
          = mset (map h_id (handOf (builderState c))) - mset ?ms"
    by (rule h)
  show "\<exists>moved.
            discardOf (builderState (finalizePlay c))
              = discardOf (builderState c) @ map (\<lambda>i. DiscardEntry i OriginPlayed) moved
          \<and> mset moved + mset (map h_id (handOf (builderState (finalizePlay c))))
              = mset (map h_id (handOf (builderState c)))
          \<and> (mset ?ms \<subseteq># mset (map h_id (handOf (builderState c)))
               \<longrightarrow> moved = ?ms)"
    using d cons pres by blast
qed

lemma playExample_state:
  "finalizeSelection (activePlay playExample) = Some \<lparr> baseId = ''B1'', mods = [''M1''] \<rparr>
   \<and> handOf (builderState playExample) = [HandEntry ''M1'' Unspent, HandEntry ''B1'' Unspent]
   \<and> discardOf (builderState playExample) = []"
  by code_simp

lemma duplicatePlayExample_state:
  "finalizeSelection (activePlay duplicatePlayExample) = Some \<lparr> baseId = ''B1'', mods = [''M1''] \<rparr>
   \<and> handOf (builderState duplicatePlayExample)
       = [HandEntry ''B1'' Unspent, HandEntry ''N0'' Unspent, HandEntry ''N0'' Unspent,
          HandEntry ''N0'' Unspent, HandEntry ''N0'' Unspent, HandEntry ''N0'' Unspent,
          HandEntry ''M1'' Unspent, HandEntry ''B1'' Unspent]
   \<and> discardOf (builderState duplicatePlayExample) = []"
  by code_simp

lemma initial_no_play: "finalizeSelection (activePlay (initialComponent exampleProps None)) = None"
  by code_simp

theorem finalizePlay_effect_witness:
  "finalizeSelection (activePlay (initialComponent exampleProps None)) = None
   \<and> finalizePlay (initialComponent exampleProps None) = initialComponent exampleProps None
   \<and> finalizeSelection (activePlay playExample) = Some \<lparr> baseId = ''B1'', mods = [''M1''] \<rparr>
   \<and> mset [''B1'', ''M1''] \<subseteq># mset (map h_id (handOf (builderState playExample)))
   \<and> activePlay (finalizePlay playExample) = None
   \<and> mset (map h_id (handOf (builderState (finalizePlay playExample)))) = {#}
   \<and> discardOf (builderState (finalizePlay playExample))
       = [DiscardEntry ''B1'' OriginPlayed, DiscardEntry ''M1'' OriginPlayed]
   \<and> finalizeSelection (activePlay duplicatePlayExample)
       = Some \<lparr> baseId = ''B1'', mods = [''M1''] \<rparr>
   \<and> handOf (builderState duplicatePlayExample)
       = [HandEntry ''B1'' Unspent, HandEntry ''N0'' Unspent, HandEntry ''N0'' Unspent,
          HandEntry ''N0'' Unspent, HandEntry ''N0'' Unspent, HandEntry ''N0'' Unspent,
          HandEntry ''M1'' Unspent, HandEntry ''B1'' Unspent]
   \<and> handOf (builderState (finalizePlay duplicatePlayExample))
       = [HandEntry ''N0'' Unspent, HandEntry ''N0'' Unspent, HandEntry ''N0'' Unspent,
          HandEntry ''N0'' Unspent, HandEntry ''N0'' Unspent, HandEntry ''B1'' Unspent]
   \<and> discardOf (builderState (finalizePlay duplicatePlayExample))
       = [DiscardEntry ''B1'' OriginPlayed, DiscardEntry ''M1'' OriginPlayed]"
proof -
  have sel: "finalizeSelection (activePlay playExample) = Some \<lparr> baseId = ''B1'', mods = [''M1''] \<rparr>"
    using playExample_state by blast
  have sel2: "finalizeSelection (activePlay duplicatePlayExample)
       = Some \<lparr> baseId = ''B1'', mods = [''M1''] \<rparr>"
    using duplicatePlayExample_state by blast
  note t0 = finalizePlay_effect [of "initialComponent exampleProps None", THEN conjunct1, THEN mp,
      OF initial_no_play]
  note t1 = finalizePlay_effect [of playExample "\<lparr> baseId = ''B1'', mods = [''M1''] \<rparr>",
      THEN conjunct2, THEN mp, OF sel]
  note t2 = finalizePlay_effect [of duplicatePlayExample "\<lparr> baseId = ''B1'', mods = [''M1''] \<rparr>",
      THEN conjunct2, THEN mp, OF sel2]
  have a: "finalizePlay (initialComponent exampleProps None) = initialComponent exampleProps None"
    by (rule t0)
  have sub: "mset [''B1'', ''M1''] \<subseteq># mset (map h_id (handOf (builderState playExample)))"
    using playExample_state by simp
  have b: "activePlay (finalizePlay playExample) = None"
    by (rule t1 [THEN conjunct2, THEN conjunct1])
  have "handOf (builderState (finalizePlay playExample))
      = handWithout (handOf (builderState playExample))
          (baseId \<lparr> baseId = ''B1'', mods = [''M1''] \<rparr> # mods \<lparr> baseId = ''B1'', mods = [''M1''] \<rparr>)"
    by (rule t1 [THEN conjunct2, THEN conjunct2, THEN conjunct2, THEN conjunct1])
  then have "handOf (builderState (finalizePlay playExample)) = []"
    using playExample_state by simp
  then have c: "mset (map h_id (handOf (builderState (finalizePlay playExample)))) = {#}"
    by simp
  have "discardOf (builderState (finalizePlay playExample))
       = discardOf (builderState playExample)
         @ map (\<lambda>i. DiscardEntry i OriginPlayed)
             (movedIds (handOf (builderState playExample))
                (baseId \<lparr> baseId = ''B1'', mods = [''M1''] \<rparr> # mods \<lparr> baseId = ''B1'', mods = [''M1''] \<rparr>))"
    by (rule t1 [THEN conjunct2, THEN conjunct2, THEN conjunct2, THEN conjunct2, THEN conjunct1])
  then have d: "discardOf (builderState (finalizePlay playExample))
       = [DiscardEntry ''B1'' OriginPlayed, DiscardEntry ''M1'' OriginPlayed]"
    using playExample_state by simp
  have h2: "handOf (builderState duplicatePlayExample)
       = [HandEntry ''B1'' Unspent, HandEntry ''N0'' Unspent, HandEntry ''N0'' Unspent,
          HandEntry ''N0'' Unspent, HandEntry ''N0'' Unspent, HandEntry ''N0'' Unspent,
          HandEntry ''M1'' Unspent, HandEntry ''B1'' Unspent]"
    using duplicatePlayExample_state by blast
  have d2: "discardOf (builderState duplicatePlayExample) = []"
    using duplicatePlayExample_state by blast
  have "handOf (builderState (finalizePlay duplicatePlayExample))
      = handWithout (handOf (builderState duplicatePlayExample))
          (baseId \<lparr> baseId = ''B1'', mods = [''M1''] \<rparr> # mods \<lparr> baseId = ''B1'', mods = [''M1''] \<rparr>)"
    by (rule t2 [THEN conjunct2, THEN conjunct2, THEN conjunct2, THEN conjunct1])
  then have e: "handOf (builderState (finalizePlay duplicatePlayExample))
       = [HandEntry ''N0'' Unspent, HandEntry ''N0'' Unspent, HandEntry ''N0'' Unspent,
          HandEntry ''N0'' Unspent, HandEntry ''N0'' Unspent, HandEntry ''B1'' Unspent]"
    by (simp add: h2)
  have "discardOf (builderState (finalizePlay duplicatePlayExample))
       = discardOf (builderState duplicatePlayExample)
         @ map (\<lambda>i. DiscardEntry i OriginPlayed)
             (movedIds (handOf (builderState duplicatePlayExample))
                (baseId \<lparr> baseId = ''B1'', mods = [''M1''] \<rparr> # mods \<lparr> baseId = ''B1'', mods = [''M1''] \<rparr>))"
    by (rule t2 [THEN conjunct2, THEN conjunct2, THEN conjunct2, THEN conjunct2, THEN conjunct1])
  then have f: "discardOf (builderState (finalizePlay duplicatePlayExample))
       = [DiscardEntry ''B1'' OriginPlayed, DiscardEntry ''M1'' OriginPlayed]"
    by (simp add: h2 d2)
  from initial_no_play a sel sub b c d sel2 h2 e f show ?thesis
    by blast
qed

text \<open>
  The claim C8 as it is written fails when a selected card has left the hand. In
  \<open>abandonedPlayExample\<close> the base B1 is selected with M1 attached, and B1 was then discarded
  from the hand. \<open>finalizePlay\<close> moves M1 but no copy of the base card: the only B1 entry
  of the discard pile is the one tagged discarded.
\<close>

theorem finalizePlay_base_counterexample:
  "finalizeSelection (activePlay abandonedPlayExample) = Some \<lparr> baseId = ''B1'', mods = [''M1''] \<rparr>
   \<and> hand (builderState abandonedPlayExample) = Some [HandEntry ''M1'' Unspent]
   \<and> discard (builderState abandonedPlayExample) = Some [DiscardEntry ''B1'' OriginDiscarded]
   \<and> hand (builderState (finalizePlay abandonedPlayExample)) = Some []
   \<and> discard (builderState (finalizePlay abandonedPlayExample))
       = Some [DiscardEntry ''B1'' OriginDiscarded, DiscardEntry ''M1'' OriginPlayed]
   \<and> DiscardEntry ''B1'' OriginPlayed
       \<notin> set (discardOf (builderState (finalizePlay abandonedPlayExample)))
   \<and> activePlay (finalizePlay abandonedPlayExample) = None"
  by code_simp

end
